theory Spec2Isabelle
  imports Main
begin

section \<open>Python strings\<close>

text \<open>
  A Python \<open>str\<close> is a sequence of Unicode code points, so it is modelled as a list of
  natural numbers. \<open>py\<close> turns an ASCII literal of the source into that representation.
\<close>

type_synonym pystr = "nat list"

definition py :: "string \<Rightarrow> pystr" where
  "py s = map of_char s"

text \<open>
  \<open>str.isspace\<close> on one code point: the table CPython uses both for \<open>str.strip()\<close> with
  no argument and for \<open>\s\<close> in a \<open>str\<close> pattern of \<open>re\<close>.
\<close>

definition is_space :: "nat \<Rightarrow> bool" where
  "is_space c \<longleftrightarrow>
     (9 \<le> c \<and> c \<le> 13) \<or> (28 \<le> c \<and> c \<le> 32) \<or> c = 133 \<or> c = 160 \<or> c = 5760 \<or>
     (8192 \<le> c \<and> c \<le> 8202) \<or> c = 8232 \<or> c = 8233 \<or> c = 8239 \<or> c = 8287 \<or> c = 12288"

text \<open>The class \<open>[0-9]\<close>, and the classes \<open>[a-z]\<close>, \<open>[A-Z]\<close> of the file name pattern.\<close>

definition is_digit :: "nat \<Rightarrow> bool" where
  "is_digit c \<longleftrightarrow> 48 \<le> c \<and> c \<le> 57"

definition is_lower :: "nat \<Rightarrow> bool" where
  "is_lower c \<longleftrightarrow> 97 \<le> c \<and> c \<le> 122"

definition is_upper :: "nat \<Rightarrow> bool" where
  "is_upper c \<longleftrightarrow> 65 \<le> c \<and> c \<le> 90"

text \<open>\<open>s.strip()\<close>: leading and trailing white space removed.\<close>

definition py_strip :: "pystr \<Rightarrow> pystr" where
  "py_strip s = rev (dropWhile is_space (rev (dropWhile is_space s)))"

text \<open>\<open>s.startswith(p)\<close>.\<close>

definition startswith :: "pystr \<Rightarrow> pystr \<Rightarrow> bool" where
  "startswith s p \<longleftrightarrow> take (length p) s = p"

text \<open>
  \<open>s.replace(old, new)\<close>: every occurrence of \<open>old\<close>, found from the left and not
  overlapping, is replaced. With an empty \<open>old\<close> Python puts \<open>new\<close> before every code
  point and at the end.
\<close>

function py_replace :: "pystr \<Rightarrow> pystr \<Rightarrow> pystr \<Rightarrow> pystr" where
  "py_replace old new [] = (if old = [] then new else [])"
| "py_replace old new (c # cs) =
     (if old = [] then new @ c # py_replace old new cs
      else if startswith (c # cs) old then new @ py_replace old new (drop (length old) (c # cs))
      else c # py_replace old new cs)"
  by pat_completeness auto
termination
  by (relation "measure (\<lambda>(old, new, s). length s)") auto

text \<open>\<open>sub in s\<close>: \<open>sub\<close> occurs somewhere in \<open>s\<close>.\<close>

fun py_in :: "pystr \<Rightarrow> pystr \<Rightarrow> bool" where
  "py_in sub [] = (sub = [])"
| "py_in sub (c # cs) = (startswith (c # cs) sub \<or> py_in sub cs)"

text \<open>\<open>sep.join(xs)\<close>.\<close>

fun py_join :: "pystr \<Rightarrow> pystr list \<Rightarrow> pystr" where
  "py_join sep [] = []"
| "py_join sep [x] = x"
| "py_join sep (x # y # ys) = x @ sep @ py_join sep (y # ys)"

section \<open>JSON values, \<open>json.dumps\<close> and \<open>json.loads\<close>\<close>

text \<open>
  The objects \<open>json.loads\<close> builds. An \<open>int\<close> is unbounded. A \<open>float\<close> is kept as the
  literal it was read from (its binary value is not modelled); what Python computes from
  a float (its \<open>repr\<close>, its truth value) is a parameter of the functions that need it.
  A \<open>dict\<close> is its items in insertion order, with distinct keys.
\<close>

datatype json =
    JNull
  | JBool bool
  | JInt int
  | JFloat pystr
  | JString pystr
  | JArray "json list"
  | JObject "(pystr \<times> json) list"

text \<open>\<open>d[k] = v\<close> on a dict: an existing key keeps its place.\<close>

fun dict_set :: "(pystr \<times> json) list \<Rightarrow> pystr \<Rightarrow> json \<Rightarrow> (pystr \<times> json) list" where
  "dict_set [] k v = [(k, v)]"
| "dict_set ((k', v') # d) k v = (if k' = k then (k, v) # d else (k', v') # dict_set d k v)"

text \<open>\<open>dict(pairs)\<close>: a later pair with the same key overwrites the value.\<close>

definition dict_of_pairs :: "(pystr \<times> json) list \<Rightarrow> (pystr \<times> json) list" where
  "dict_of_pairs pairs = foldl (\<lambda>d (k, v). dict_set d k v) [] pairs"

subsection \<open>Serialising\<close>

fun nat_repr :: "nat \<Rightarrow> pystr" where
  "nat_repr n = (if n < 10 then [48 + n] else nat_repr (n div 10) @ [48 + n mod 10])"

definition int_repr :: "int \<Rightarrow> pystr" where
  "int_repr i = (if i < 0 then 45 # nat_repr (nat (- i)) else nat_repr (nat i))"

definition hex_digit :: "nat \<Rightarrow> nat" where
  "hex_digit d = (if d < 10 then 48 + d else 87 + d)"

text \<open>\<open>'\\u{0:04x}'.format(n)\<close> for \<open>n < 0x10000\<close>.\<close>

definition u_escape :: "nat \<Rightarrow> pystr" where
  "u_escape n =
     [92, 117, hex_digit (n div 4096 mod 16), hex_digit (n div 256 mod 16),
      hex_digit (n div 16 mod 16), hex_digit (n mod 16)]"

text \<open>One code point under \<open>ensure_ascii=True\<close>, the default of \<open>json.dumps\<close>.\<close>

definition escape_ascii :: "nat \<Rightarrow> pystr" where
  "escape_ascii c =
     (if c = 92 then [92, 92]
      else if c = 34 then [92, 34]
      else if c = 8 then [92, 98]
      else if c = 12 then [92, 102]
      else if c = 10 then [92, 110]
      else if c = 13 then [92, 114]
      else if c = 9 then [92, 116]
      else if 32 \<le> c \<and> c \<le> 126 then [c]
      else if c < 65536 then u_escape c
      else u_escape (55296 + (c - 65536) div 1024 mod 1024) @
           u_escape (56320 + (c - 65536) mod 1024))"

definition encode_basestring_ascii :: "pystr \<Rightarrow> pystr" where
  "encode_basestring_ascii s = 34 # concat (map escape_ascii s) @ [34]"

text \<open>
  \<open>json.dumps(v)\<close> with its default arguments (separators \<open>', '\<close> and \<open>': '\<close>, ASCII
  only). \<open>frepr\<close> is \<open>float.__repr__\<close> on the literal a float was read from.
\<close>

fun json_dumps :: "(pystr \<Rightarrow> pystr) \<Rightarrow> json \<Rightarrow> pystr"
  and dumps_items :: "(pystr \<Rightarrow> pystr) \<Rightarrow> json list \<Rightarrow> pystr list"
  and dumps_pairs :: "(pystr \<Rightarrow> pystr) \<Rightarrow> (pystr \<times> json) list \<Rightarrow> pystr list" where
  "json_dumps frepr JNull = py ''null''"
| "json_dumps frepr (JBool b) = (if b then py ''true'' else py ''false'')"
| "json_dumps frepr (JInt i) = int_repr i"
| "json_dumps frepr (JFloat lit) = frepr lit"
| "json_dumps frepr (JString s) = encode_basestring_ascii s"
| "json_dumps frepr (JArray xs) = [91] @ py_join (py '', '') (dumps_items frepr xs) @ [93]"
| "json_dumps frepr (JObject kvs) = [123] @ py_join (py '', '') (dumps_pairs frepr kvs) @ [125]"
| "dumps_items frepr [] = []"
| "dumps_items frepr (x # xs) = json_dumps frepr x # dumps_items frepr xs"
| "dumps_pairs frepr [] = []"
| "dumps_pairs frepr ((k, v) # kvs) =
     (encode_basestring_ascii k @ py '': '' @ json_dumps frepr v) # dumps_pairs frepr kvs"

subsection \<open>Parsing\<close>

text \<open>The white space of \<open>json.decoder\<close>: space, tab, line feed, carriage return.\<close>

definition json_ws :: "nat \<Rightarrow> bool" where
  "json_ws c \<longleftrightarrow> c = 32 \<or> c = 9 \<or> c = 10 \<or> c = 13"

definition skip_ws :: "pystr \<Rightarrow> pystr" where
  "skip_ws s = dropWhile json_ws s"

definition hex_val :: "nat \<Rightarrow> nat option" where
  "hex_val c =
     (if 48 \<le> c \<and> c \<le> 57 then Some (c - 48)
      else if 65 \<le> c \<and> c \<le> 70 then Some (c - 55)
      else if 97 \<le> c \<and> c \<le> 102 then Some (c - 87)
      else None)"

text \<open>The four hexadecimal digits after \<open>\u\<close>.\<close>

definition decode_uXXXX :: "pystr \<Rightarrow> nat option" where
  "decode_uXXXX s =
     (case s of
        a # b # c # d # _ \<Rightarrow>
          (case (hex_val a, hex_val b, hex_val c, hex_val d) of
             (Some x, Some y, Some z, Some w) \<Rightarrow> Some (((x * 16 + y) * 16 + z) * 16 + w)
           | _ \<Rightarrow> None)
      | _ \<Rightarrow> None)"

text \<open>The table \<open>BACKSLASH\<close> of one-letter escapes.\<close>

definition backslash :: "nat \<Rightarrow> nat option" where
  "backslash e =
     (if e = 34 then Some 34
      else if e = 92 then Some 92
      else if e = 47 then Some 47
      else if e = 98 then Some 8
      else if e = 102 then Some 12
      else if e = 110 then Some 10
      else if e = 114 then Some 13
      else if e = 116 then Some 9
      else None)"

definition cons_chr :: "nat \<Rightarrow> (pystr \<times> pystr) option \<Rightarrow> (pystr \<times> pystr) option" where
  "cons_chr c r = (case r of None \<Rightarrow> None | Some (s, rest) \<Rightarrow> Some (c # s, rest))"

text \<open>
  \<open>scanstring\<close> in strict mode, called just after the opening quote: the decoded string
  and the input after the closing quote, or \<open>None\<close> where Python raises
  \<open>JSONDecodeError\<close> (no closing quote, a control character, a bad escape).
\<close>

function scanstring :: "pystr \<Rightarrow> (pystr \<times> pystr) option" where
  "scanstring [] = None"
| "scanstring (c # cs) =
     (if c = 34 then Some ([], cs)
      else if c = 92 then
        (case cs of
           [] \<Rightarrow> None
         | e # r \<Rightarrow>
             if e = 117 then
               (case decode_uXXXX r of
                  None \<Rightarrow> None
                | Some uni \<Rightarrow>
                    if 55296 \<le> uni \<and> uni \<le> 56319 \<and> take 2 (drop 4 r) = [92, 117] then
                      (case decode_uXXXX (drop 6 r) of
                         None \<Rightarrow> None
                       | Some uni2 \<Rightarrow>
                           if 56320 \<le> uni2 \<and> uni2 \<le> 57343 then
                             cons_chr (65536 + ((uni - 55296) * 1024 + (uni2 - 56320)))
                               (scanstring (drop 10 r))
                           else cons_chr uni (scanstring (drop 4 r)))
                    else cons_chr uni (scanstring (drop 4 r)))
             else
               (case backslash e of
                  None \<Rightarrow> None
                | Some ch \<Rightarrow> cons_chr ch (scanstring r)))
      else if c < 32 then None
      else cons_chr c (scanstring cs))"
  by pat_completeness auto
termination
  by (relation "measure length") auto

text \<open>
  \<open>NUMBER_RE\<close>: \<open>(-?(?:0|[1-9][0-9]*))(\.[0-9]+)?([eE][-+]?[0-9]+)?\<close>, matched at the start
  of the input. The three groups and the rest of the input.
\<close>

definition match_integer :: "pystr \<Rightarrow> (pystr \<times> pystr) option" where
  "match_integer s =
     (let (sign, r) = (case s of c # cs \<Rightarrow> if c = 45 then ([45], cs) else ([], s) | [] \<Rightarrow> ([], s))
      in case r of
           [] \<Rightarrow> None
         | d # ds \<Rightarrow>
             if d = 48 then Some (sign @ [48], ds)
             else if is_digit d then Some (sign @ takeWhile is_digit r, dropWhile is_digit r)
             else None)"

definition match_frac :: "pystr \<Rightarrow> pystr \<times> pystr" where
  "match_frac s =
     (case s of
        c # d # ds \<Rightarrow>
          if c = 46 \<and> is_digit d then (c # takeWhile is_digit (d # ds), dropWhile is_digit (d # ds))
          else ([], s)
      | _ \<Rightarrow> ([], s))"

definition match_exp :: "pystr \<Rightarrow> pystr \<times> pystr" where
  "match_exp s =
     (case s of
        [] \<Rightarrow> ([], s)
      | c # cs \<Rightarrow>
          if c = 101 \<or> c = 69 then
            (let (sign, r) =
               (case cs of x # xs \<Rightarrow> if x = 45 \<or> x = 43 then ([x], xs) else ([], cs) | [] \<Rightarrow> ([], cs))
             in case r of
                  [] \<Rightarrow> ([], s)
                | d # ds \<Rightarrow>
                    if is_digit d then (c # sign @ takeWhile is_digit r, dropWhile is_digit r)
                    else ([], s))
          else ([], s))"

text \<open>
  \<open>int(text)\<close> on an optional minus sign and decimal digits. \<open>int\<close> refuses a text of more
  than \<open>sys.int_max_str_digits\<close> digits with a \<open>ValueError\<close>; the limit is 4300 unless the
  interpreter is configured otherwise.
\<close>

definition nat_of_digits :: "pystr \<Rightarrow> nat" where
  "nat_of_digits ds = foldl (\<lambda>n d. 10 * n + (d - 48)) 0 ds"

definition int_of_literal :: "pystr \<Rightarrow> int" where
  "int_of_literal s =
     (case s of
        [] \<Rightarrow> 0
      | c # cs \<Rightarrow> if c = 45 then - int (nat_of_digits cs) else int (nat_of_digits s))"

definition int_max_str_digits :: nat where
  "int_max_str_digits = 4300"

text \<open>
  \<open>_match_number\<close>: no match, or the number and the input after it, or the \<open>ValueError\<close> of
  \<open>int\<close>. A literal with a fraction or an exponent goes to \<open>float\<close>, which takes any
  number of digits.
\<close>

datatype number_match = NoMatch | Number json pystr | IntRefused

definition match_number :: "pystr \<Rightarrow> number_match" where
  "match_number s =
     (case match_integer s of
        None \<Rightarrow> NoMatch
      | Some (integer, r1) \<Rightarrow>
          (let (frac, r2) = match_frac r1; (exp, r3) = match_exp r2
           in if frac \<noteq> [] \<or> exp \<noteq> [] then Number (JFloat (integer @ frac @ exp)) r3
              else if int_max_str_digits < length (filter is_digit integer) then IntRefused
              else Number (JInt (int_of_literal integer)) r3))"

text \<open>
  The result of a scan: a value and the input after it, an exception (\<open>JSONDecodeError\<close>,
  or the \<open>ValueError\<close> of \<open>int\<close>), or the recursion bound of the model reached.
\<close>

datatype 'a scan = Scanned 'a | Invalid | Exhausted

text \<open>
  \<open>scan_once\<close> with \<open>JSONArray\<close> and \<open>JSONObject\<close>. \<open>array_loop\<close> is the \<open>while\<close> loop of
  \<open>JSONArray\<close>, entered at the start of a value; \<open>object_loop\<close> is the one of
  \<open>JSONObject\<close>, entered just after the opening quote of a key. The first argument
  bounds the depth of the recursion.
\<close>

fun scan_once :: "nat \<Rightarrow> pystr \<Rightarrow> (json \<times> pystr) scan"
  and array_loop :: "nat \<Rightarrow> pystr \<Rightarrow> json list \<Rightarrow> (json \<times> pystr) scan"
  and object_loop :: "nat \<Rightarrow> pystr \<Rightarrow> (pystr \<times> json) list \<Rightarrow> (json \<times> pystr) scan" where
  "scan_once 0 s = Exhausted"
| "scan_once (Suc n) [] = Invalid"
| "scan_once (Suc n) (c # cs) =
     (if c = 34 then
        (case scanstring cs of None \<Rightarrow> Invalid | Some (str, r) \<Rightarrow> Scanned (JString str, r))
      else if c = 123 then
        (case skip_ws cs of
           [] \<Rightarrow> Invalid
         | d # ds \<Rightarrow>
             if d = 125 then Scanned (JObject [], ds)
             else if d = 34 then object_loop n ds []
             else Invalid)
      else if c = 91 then
        (case skip_ws cs of
           [] \<Rightarrow> Invalid
         | d # ds \<Rightarrow> if d = 93 then Scanned (JArray [], ds) else array_loop n (d # ds) [])
      else if startswith (c # cs) (py ''null'') then Scanned (JNull, drop 4 (c # cs))
      else if startswith (c # cs) (py ''true'') then Scanned (JBool True, drop 4 (c # cs))
      else if startswith (c # cs) (py ''false'') then Scanned (JBool False, drop 5 (c # cs))
      else
        (case match_number (c # cs) of
           Number v r \<Rightarrow> Scanned (v, r)
         | IntRefused \<Rightarrow> Invalid
         | NoMatch \<Rightarrow>
             if startswith (c # cs) (py ''NaN'') then
               Scanned (JFloat (py ''NaN''), drop 3 (c # cs))
             else if startswith (c # cs) (py ''Infinity'') then
               Scanned (JFloat (py ''Infinity''), drop 8 (c # cs))
             else if startswith (c # cs) (py ''-Infinity'') then
               Scanned (JFloat (py ''-Infinity''), drop 9 (c # cs))
             else Invalid))"
| "array_loop 0 s values = Exhausted"
| "array_loop (Suc n) s values =
     (case scan_once n s of
        Exhausted \<Rightarrow> Exhausted
      | Invalid \<Rightarrow> Invalid
      | Scanned (v, r) \<Rightarrow>
          (case skip_ws r of
             [] \<Rightarrow> Invalid
           | d # ds \<Rightarrow>
               if d = 93 then Scanned (JArray (values @ [v]), ds)
               else if d = 44 then array_loop n (skip_ws ds) (values @ [v])
               else Invalid))"
| "object_loop 0 s pairs = Exhausted"
| "object_loop (Suc n) s pairs =
     (case scanstring s of
        None \<Rightarrow> Invalid
      | Some (key, r) \<Rightarrow>
          (case skip_ws r of
             [] \<Rightarrow> Invalid
           | colon # r1 \<Rightarrow>
               if colon \<noteq> 58 then Invalid
               else
                 (case scan_once n (skip_ws r1) of
                    Exhausted \<Rightarrow> Exhausted
                  | Invalid \<Rightarrow> Invalid
                  | Scanned (v, r2) \<Rightarrow>
                      (case skip_ws r2 of
                         [] \<Rightarrow> Invalid
                       | d # ds \<Rightarrow>
                           if d = 125 then
                             Scanned (JObject (dict_of_pairs (pairs @ [(key, v)])), ds)
                           else if d = 44 then
                             (case skip_ws ds of
                                [] \<Rightarrow> Invalid
                              | q # r3 \<Rightarrow>
                                  if q = 34 then object_loop n r3 (pairs @ [(key, v)])
                                  else Invalid)
                           else Invalid))))"

text \<open>
  \<open>json.loads(s)\<close> for a \<open>str\<close>: a leading byte order mark is refused, white space may
  surround the one value, and anything after it is an error. \<open>None\<close> stands for the
  exception raised: a \<open>JSONDecodeError\<close>, or the \<open>ValueError\<close> of \<open>int\<close> on an integer of
  more than 4300 digits; every caller in the program handles the two alike. Every nested
  call of the scanner consumes input, so the bound \<open>2 * length s + 2\<close> is never reached
  (lemma \<open>scan_once_not_Exhausted\<close> below). The recursion limit of the interpreter, which a
  text nested some hundreds of levels deep exceeds, is not modelled.
\<close>

definition json_loads :: "pystr \<Rightarrow> json option" where
  "json_loads s =
     (if startswith s [65279] then None
      else
        (case scan_once (2 * length s + 2) (skip_ws s) of
           Scanned (v, r) \<Rightarrow> if skip_ws r = [] then Some v else None
         | _ \<Rightarrow> None))"

section \<open>Python operations on the parsed values\<close>

datatype py_exception =
    KeyError
  | TypeError
  | IndexError
  | AttributeError
  | JSONDecodeError
  | RequestException
  | HTTPError
  | OSError
  | FPDFException
  | ValidationError

text \<open>\<open>v[k]\<close> with a string key. The keys of a parsed object are strings.\<close>

fun getitem_key :: "json \<Rightarrow> pystr \<Rightarrow> py_exception + json" where
  "getitem_key (JObject d) k = (case map_of d k of None \<Rightarrow> Inl KeyError | Some v \<Rightarrow> Inr v)"
| "getitem_key v k = Inl TypeError"

text \<open>\<open>v[i]\<close> with an integer: a negative index counts from the end.\<close>

definition list_index :: "'a list \<Rightarrow> int \<Rightarrow> 'a option" where
  "list_index xs i =
     (if 0 \<le> i \<and> i < int (length xs) then Some (xs ! nat i)
      else if i < 0 \<and> - i \<le> int (length xs) then Some (xs ! nat (int (length xs) + i))
      else None)"

fun getitem_index :: "json \<Rightarrow> int \<Rightarrow> py_exception + json" where
  "getitem_index (JArray xs) i = (case list_index xs i of None \<Rightarrow> Inl IndexError | Some v \<Rightarrow> Inr v)"
| "getitem_index (JString s) i =
     (case list_index s i of None \<Rightarrow> Inl IndexError | Some c \<Rightarrow> Inr (JString [c]))"
| "getitem_index (JObject d) i = Inl KeyError"
| "getitem_index v i = Inl TypeError"

text \<open>
  The truth value of \<open>if v:\<close>. \<open>fbool\<close> is the truth value of a float, given the literal
  it was read from.
\<close>

fun truthy :: "(pystr \<Rightarrow> bool) \<Rightarrow> json \<Rightarrow> bool" where
  "truthy fbool JNull = False"
| "truthy fbool (JBool b) = b"
| "truthy fbool (JInt i) = (i \<noteq> 0)"
| "truthy fbool (JFloat lit) = fbool lit"
| "truthy fbool (JString s) = (s \<noteq> [])"
| "truthy fbool (JArray xs) = (xs \<noteq> [])"
| "truthy fbool (JObject d) = (d \<noteq> [])"

text \<open>\<open>for x in v\<close>: the elements of a list, the characters of a string, the keys of a dict.\<close>

fun py_iter :: "json \<Rightarrow> py_exception + json list" where
  "py_iter (JArray xs) = Inr xs"
| "py_iter (JString s) = Inr (map (\<lambda>c. JString [c]) s)"
| "py_iter (JObject d) = Inr (map (\<lambda>(k, v). JString k) d)"
| "py_iter v = Inl TypeError"

section \<open>The world outside the program\<close>

text \<open>
  \<open>llm.invoke(prompt)\<close> raises or answers with a text (\<open>response.content\<close>).
\<close>

datatype llm_result = LlmRaises | LlmContent pystr

text \<open>
  \<open>requests.get\<close>: the arguments the program passes, and what comes back. The call raises
  (time-out, connection error, bad URL), or returns a response with a status code and a
  body, the bytes of \<open>.content\<close>; the body is \<open>None\<close> where reading it raises, which a
  streamed response does on the first access to \<open>.content\<close>.
\<close>

record request =
  req_url :: json
  req_headers :: "(pystr \<times> pystr) list"
  req_params :: "(pystr \<times> json) list"
  req_stream :: bool
  req_timeout :: nat

datatype http_result = RequestRaises | Response nat "pystr option"

text \<open>
  The document is the sequence of calls made on the \<open>FPDF\<close> object; laying them out and
  serialising the pages is FPDF's work. An f-string is kept as its pieces: a literal
  text, or a value that Python formats with \<open>str\<close>.
\<close>

datatype fpart = Lit pystr | Val json

datatype pdf_op =
    AddFont pystr pystr pystr
  | AddPage
  | SetFont pystr pystr nat
  | Cell nat nat "fpart list" nat nat pystr
  | MultiCell nat nat "fpart list" pystr
  | Ln nat
  | Image pystr pystr nat nat

text \<open>
  Everything the program reads from outside: the model behind \<open>llm\<close>, the environment
  variable \<open>PEXELS_API_KEY\<close> (\<open>None\<close> when unset), the network, the text that
  \<open>response.json()\<close> decodes from the bytes of a body before it parses it (\<open>requests\<close>
  picks the encoding, and where the response declares none and the bytes begin with a
  byte order mark it decodes them as \<open>utf-8-sig\<close>, which drops the mark), the name
  \<open>NamedTemporaryFile\<close> picks, whether writing the staged bytes fails, whether FPDF can
  decode a staged image, whether the three font files are there, whether FPDF fails to
  lay out and serialise the calls made on it (\<open>pdf.output\<close>), and Python's \<open>repr\<close> and
  truth value of a float.
\<close>

record world =
  llm :: "pystr \<Rightarrow> llm_result"
  PEXELS_API_KEY :: "pystr option"
  http_get :: "request \<Rightarrow> http_result"
  decode_body :: "pystr \<Rightarrow> pystr"
  tmp_name :: pystr
  write_fails :: bool
  image_decodes :: "pystr \<Rightarrow> bool"
  fonts_found :: bool
  output_fails :: "pdf_op list \<Rightarrow> bool"
  float_repr :: "pystr \<Rightarrow> pystr"
  float_bool :: "pystr \<Rightarrow> bool"

text \<open>
  What \<open>st.error\<close> and \<open>st.warning\<close> show. The text of the exception, which the source
  appends to each error message, is left out.
\<close>

datatype notice = StError pystr | StWarning pystr

section \<open>The tools\<close>

subsection \<open>\<open>create_recipe\<close>\<close>

definition recipe_prompt :: "pystr \<Rightarrow> pystr \<Rightarrow> pystr" where
  "recipe_prompt ingredients dietary_needs =
     py ''\<newline>    You are a creative chef. Create a unique and delicious recipe using the following ingredients: ''
     @ ingredients
     @ py ''.\<newline>    The recipe must adhere to these dietary restrictions: ''
     @ dietary_needs
     @ py ''.\<newline>    \<newline>    Respond as a JSON object with:\<newline>    - \"title\"\<newline>    - \"description\"\<newline>    - \"ingredients\" (array of strings)\<newline>    - \"instructions\" (array of strings)\<newline>    - \"image_keywords\"\<newline>    ''"

text \<open>
  \<open>response.content.replace('```json', '').replace('```', '').strip()\<close>, the code fence
  stripping of both text tools. The fence is three grave accents (code point 96).
\<close>

definition fence :: pystr where
  "fence = [96, 96, 96]"

definition strip_fences :: "pystr \<Rightarrow> pystr" where
  "strip_fences content =
     py_strip (py_replace fence [] (py_replace (fence @ py ''json'') [] content))"

definition failed_recipe :: json where
  "failed_recipe =
     JObject
       [(py ''title'', JString (py ''Failed to generate recipe'')),
        (py ''description'', JString (py ''Please try again.'')),
        (py ''ingredients'', JArray []),
        (py ''instructions'', JArray []),
        (py ''image_keywords'', JString [])]"

text \<open>
  The body of both text tools after the prompt is built: call the model, strip the
  fences, check that the text parses and return the text; any exception gives the
  message and the serialised sentinel.
\<close>

definition invoke_json :: "world \<Rightarrow> pystr \<Rightarrow> pystr \<Rightarrow> json \<Rightarrow> pystr \<times> notice list" where
  "invoke_json w prompt message sentinel =
     (case llm w prompt of
        LlmRaises \<Rightarrow> (json_dumps (float_repr w) sentinel, [StError message])
      | LlmContent content \<Rightarrow>
          (let json_content = strip_fences content
           in case json_loads json_content of
                None \<Rightarrow> (json_dumps (float_repr w) sentinel, [StError message])
              | Some _ \<Rightarrow> (json_content, [])))"

definition create_recipe :: "world \<Rightarrow> pystr \<Rightarrow> pystr \<Rightarrow> pystr \<times> notice list" where
  "create_recipe w ingredients dietary_needs =
     invoke_json w (recipe_prompt ingredients dietary_needs)
       (py ''Error generating recipe: '') failed_recipe"

subsection \<open>\<open>get_nutritional_info\<close>\<close>

definition nutrition_prompt :: "pystr \<Rightarrow> pystr" where
  "nutrition_prompt recipe_text =
     py ''\<newline>    Estimate the nutritional breakdown per serving for this recipe:\<newline>    ''
     @ recipe_text
     @ py ''\<newline>    \<newline>    Respond as JSON:\<newline>    - \"calories\"\<newline>    - \"protein_grams\"\<newline>    - \"fat_grams\"\<newline>    - \"carbs_grams\"\<newline>    - \"summary\"\<newline>    ''"

definition nutrition_unavailable :: json where
  "nutrition_unavailable =
     JObject
       [(py ''calories'', JInt 0),
        (py ''protein_grams'', JInt 0),
        (py ''fat_grams'', JInt 0),
        (py ''carbs_grams'', JInt 0),
        (py ''summary'', JString (py ''Nutritional info unavailable.''))]"

definition get_nutritional_info :: "world \<Rightarrow> pystr \<Rightarrow> pystr \<times> notice list" where
  "get_nutritional_info w recipe_text =
     invoke_json w (nutrition_prompt recipe_text)
       (py ''Error generating nutritional info: '') nutrition_unavailable"

subsection \<open>\<open>generate_recipe_image\<close>\<close>

definition fallback_image :: pystr where
  "fallback_image = py ''https://images.pexels.com/photos/1640777/pexels-photo-1640777.jpeg''"

definition search_request :: "pystr \<Rightarrow> pystr \<Rightarrow> request" where
  "search_request key image_keywords =
     \<lparr>req_url = JString (py ''https://api.pexels.com/v1/search''),
      req_headers = [(py ''Authorization'', key)],
      req_params =
        [(py ''query'', JString image_keywords),
         (py ''orientation'', JString (py ''landscape'')),
         (py ''per_page'', JInt 1)],
      req_stream = False,
      req_timeout = 5\<rparr>"

text \<open>\<open>response.raise_for_status()\<close> raises on the status codes 400 to 599.\<close>

definition raise_for_status :: "nat \<Rightarrow> bool" where
  "raise_for_status status \<longleftrightarrow> 400 \<le> status \<and> status < 600"

text \<open>\<open>data["photos"][0]["src"]["original"]\<close>.\<close>

definition first_original :: "json \<Rightarrow> py_exception + json" where
  "first_original data =
     (case getitem_key data (py ''photos'') of
        Inl e \<Rightarrow> Inl e
      | Inr photos \<Rightarrow>
          (case getitem_index photos 0 of
             Inl e \<Rightarrow> Inl e
           | Inr photo \<Rightarrow>
               (case getitem_key photo (py ''src'') of
                  Inl e \<Rightarrow> Inl e
                | Inr src \<Rightarrow> getitem_key src (py ''original''))))"

text \<open>
  The \<open>try\<close> block once \<open>requests.get\<close> has answered; the bare \<open>except\<close> turns every
  exception into the fallback. \<open>response.json()\<close> is \<open>json.loads\<close> on the text decoded
  from the body.
\<close>

definition search_outcome :: "world \<Rightarrow> http_result \<Rightarrow> json" where
  "search_outcome w r =
     (case r of
        RequestRaises \<Rightarrow> JString fallback_image
      | Response status body \<Rightarrow>
          if raise_for_status status then JString fallback_image
          else
            (case body of
               None \<Rightarrow> JString fallback_image
             | Some content \<Rightarrow>
                 (case json_loads (decode_body w content) of
                    None \<Rightarrow> JString fallback_image
                  | Some data \<Rightarrow>
                      (case getitem_key data (py ''photos'') of
                         Inl e \<Rightarrow> JString fallback_image
                       | Inr photos \<Rightarrow>
                           if truthy (float_bool w) photos then
                             (case first_original data of
                                Inl e \<Rightarrow> JString fallback_image
                              | Inr original \<Rightarrow> original)
                           else JString fallback_image))))"

text \<open>
  The function under the \<open>@tool\<close> decorator, on the string it is declared for
  (\<open>image_keywords: str\<close>): the value returned and the requests sent.
\<close>

definition generate_recipe_image :: "world \<Rightarrow> pystr \<Rightarrow> json \<times> request list" where
  "generate_recipe_image w image_keywords =
     (case PEXELS_API_KEY w of
        None \<Rightarrow> (JString fallback_image, [])
      | Some key \<Rightarrow>
          if key = [] then (JString fallback_image, [])
          else
            (search_outcome w (http_get w (search_request key image_keywords)),
             [search_request key image_keywords]))"

text \<open>
  \<open>generate_recipe_image.run(tool_input={"image_keywords": v})\<close>. The decorator wraps the
  function in a tool whose \<open>run\<close> checks the input against the declared argument type
  before it calls the function: a value that is not a string raises \<open>ValidationError\<close>,
  and the function is not entered.
\<close>

definition generate_recipe_image_run ::
  "world \<Rightarrow> json \<Rightarrow> py_exception + (json \<times> request list)" where
  "generate_recipe_image_run w tool_input =
     (case tool_input of
        JString image_keywords \<Rightarrow> Inr (generate_recipe_image w image_keywords)
      | _ \<Rightarrow> Inl ValidationError)"

section \<open>Instruction cleaning and the download file name\<close>

text \<open>
  The match of \<open>^[0-9]+[.)\s]+\<close> at the start of a string, if there is one. Both
  repetitions are greedy, and a digit is not in the second class, so the match is the
  longest run of digits followed by the longest run of \<open>.\<close>, \<open>)\<close> and white space, each
  at least one long.
\<close>

definition is_prefix_sep :: "nat \<Rightarrow> bool" where
  "is_prefix_sep c \<longleftrightarrow> c = 46 \<or> c = 41 \<or> is_space c"

definition number_prefix :: "pystr \<Rightarrow> pystr option" where
  "number_prefix s =
     (let digits = takeWhile is_digit s;
          seps = takeWhile is_prefix_sep (dropWhile is_digit s)
      in if digits \<noteq> [] \<and> seps \<noteq> [] then Some (digits @ seps) else None)"

text \<open>
  \<open>re.sub(r"^[0-9]+[.)\s]+", "", step)\<close>: without \<open>re.MULTILINE\<close> the anchor matches at
  the start of the string only, so at most one match is deleted.
\<close>

definition sub_number_prefix :: "pystr \<Rightarrow> pystr" where
  "sub_number_prefix s =
     (case number_prefix s of None \<Rightarrow> s | Some m \<Rightarrow> drop (length m) s)"

text \<open>\<open>re.sub(r"^[0-9]+[.)\s]+", "", step).strip()\<close>, as both the page and the PDF do.\<close>

definition clean_step :: "pystr \<Rightarrow> pystr" where
  "clean_step step = py_strip (sub_number_prefix step)"

text \<open>\<open>re.sub\<close> with a pattern that is one character class: every match is replaced.\<close>

definition re_sub_class :: "(nat \<Rightarrow> bool) \<Rightarrow> pystr \<Rightarrow> pystr \<Rightarrow> pystr" where
  "re_sub_class cls repl s = concat (map (\<lambda>c. if cls c then repl else [c]) s)"

text \<open>The class \<open>[^a-zA-Z0-9]\<close>.\<close>

definition not_alnum :: "nat \<Rightarrow> bool" where
  "not_alnum c \<longleftrightarrow> \<not> (is_lower c \<or> is_upper c \<or> is_digit c)"

text \<open>\<open>f"{re.sub(r'[^a-zA-Z0-9]', '_', title)}.pdf"\<close>, the \<open>file_name\<close> of the download button.\<close>

definition download_file_name :: "pystr \<Rightarrow> pystr" where
  "download_file_name title = re_sub_class not_alnum (py ''_'') title @ py ''.pdf''"

section \<open>The PDF\<close>

text \<open>The files on disk: the bytes at each path that exists.\<close>

type_synonym files = "pystr \<Rightarrow> pystr option"

definition font_name :: pystr where
  "font_name = py ''DejaVuSansCondensed''"

text \<open>\<open>PDF.header\<close> and \<open>PDF.footer\<close>, which FPDF calls on every page.\<close>

definition header :: "pdf_op list" where
  "header =
     [SetFont font_name (py ''B'') 16,
      Cell 0 10 [Lit (py ''AI Recipe Architect'')] 0 1 (py ''C''),
      Ln 5]"

definition footer :: "nat \<Rightarrow> pdf_op list" where
  "footer page_no =
     [SetFont font_name (py ''I'') 8,
      Cell 0 10 [Lit (py ''Page ''), Val (JInt (int page_no))] 0 0 (py ''C'')]"

definition add_fonts :: "pdf_op list" where
  "add_fonts =
     [AddFont font_name [] (py ''DejaVuSansCondensed.ttf''),
      AddFont font_name (py ''B'') (py ''DejaVuSansCondensed-Bold.ttf''),
      AddFont font_name (py ''I'') (py ''DejaVuSansCondensed-Oblique.ttf'')]"

text \<open>
  Title and description. The title is passed to \<open>multi_cell\<close> as it is, and FPDF calls
  \<open>str.replace\<close> on it: a title that is not a string raises \<open>AttributeError\<close> there. The
  description goes through an f-string, which formats any value.
\<close>

definition title_block :: "json \<Rightarrow> py_exception + pdf_op list" where
  "title_block recipe_data =
     (case getitem_key recipe_data (py ''title'') of
        Inl e \<Rightarrow> Inl e
      | Inr (JString title) \<Rightarrow>
          (case getitem_key recipe_data (py ''description'') of
             Inl e \<Rightarrow> Inl e
           | Inr description \<Rightarrow>
               Inr [SetFont font_name (py ''B'') 22,
                    MultiCell 0 12 [Lit title] (py ''C''),
                    Ln 4,
                    SetFont font_name (py ''I'') 12,
                    MultiCell 0 8 [Lit [34], Val description, Lit [34]] (py ''C''),
                    Ln 8])
      | Inr _ \<Rightarrow> Inl AttributeError)"

definition image_request :: "json \<Rightarrow> request" where
  "image_request image_url =
     \<lparr>req_url = image_url, req_headers = [], req_params = [], req_stream = True,
      req_timeout = 5\<rparr>"

text \<open>
  The \<open>finally\<close> clause: \<open>if image_path and os.path.exists(image_path): os.remove(image_path)\<close>.
  \<open>image_path\<close> is \<open>None\<close> until the assignment inside the \<open>with\<close> block.
\<close>

definition remove_staged :: "pystr option \<Rightarrow> files \<Rightarrow> files" where
  "remove_staged image_path fs =
     (case image_path of
        None \<Rightarrow> fs
      | Some path \<Rightarrow> if path \<noteq> [] \<and> fs path \<noteq> None then fs(path := None) else fs)"

text \<open>
  The image block, a \<open>try\<close> with a \<open>finally\<close> and no \<open>except\<close>: an exception raised inside
  leaves the function once the \<open>finally\<close> clause has run. \<open>NamedTemporaryFile\<close> creates the
  file before \<open>image_response.content\<close> is read and written, and \<open>image_path\<close> is assigned
  after the write.
\<close>

definition image_block :: "world \<Rightarrow> json \<Rightarrow> files \<Rightarrow> (py_exception + pdf_op list) \<times> files" where
  "image_block w image_url fs =
     (case http_get w (image_request image_url) of
        RequestRaises \<Rightarrow> (Inl RequestException, remove_staged None fs)
      | Response status body \<Rightarrow>
          if status = 200 then
            (let fs1 = fs(tmp_name w \<mapsto> [])
             in case body of
                  None \<Rightarrow> (Inl RequestException, remove_staged None fs1)
                | Some content \<Rightarrow>
                    if write_fails w then (Inl OSError, remove_staged None fs1)
                    else
                      (let fs2 = fs1(tmp_name w \<mapsto> content);
                           image_path = tmp_name w
                       in if image_decodes w content then
                            (Inr [Image image_path content 30 150, Ln 10],
                             remove_staged (Some image_path) fs2)
                          else (Inl FPDFException, remove_staged (Some image_path) fs2)))
          else (Inr [], remove_staged None fs))"

definition nutrition_block :: "json \<Rightarrow> py_exception + pdf_op list" where
  "nutrition_block nutrition_data =
     (case getitem_key nutrition_data (py ''summary'') of
        Inl e \<Rightarrow> Inl e
      | Inr summary \<Rightarrow>
     (case getitem_key nutrition_data (py ''calories'') of
        Inl e \<Rightarrow> Inl e
      | Inr calories \<Rightarrow>
     (case getitem_key nutrition_data (py ''protein_grams'') of
        Inl e \<Rightarrow> Inl e
      | Inr protein \<Rightarrow>
     (case getitem_key nutrition_data (py ''fat_grams'') of
        Inl e \<Rightarrow> Inl e
      | Inr fat \<Rightarrow>
     (case getitem_key nutrition_data (py ''carbs_grams'') of
        Inl e \<Rightarrow> Inl e
      | Inr carbs \<Rightarrow>
          Inr [SetFont font_name (py ''B'') 14,
               Cell 0 10 [Lit (py ''Nutritional Information (per serving)'')] 0 1 (py ''C''),
               SetFont font_name [] 12,
               MultiCell 0 8 [Lit (py ''Summary: ''), Val summary] (py ''C''),
               Ln 4,
               MultiCell 0 8
                 [Lit (py ''Calories: ''), Val calories,
                  Lit (py ''   Protein: ''), Val protein,
                  Lit (py ''g   Fat: ''), Val fat,
                  Lit (py ''g   Carbs: ''), Val carbs, Lit (py ''g'')]
                 (py ''C''),
               Ln 10])))))"

text \<open>One bulleted line per ingredient; the bullet is U+2022.\<close>

definition ingredients_block :: "json \<Rightarrow> py_exception + pdf_op list" where
  "ingredients_block recipe_data =
     (case getitem_key recipe_data (py ''ingredients'') of
        Inl e \<Rightarrow> Inl e
      | Inr ingredients \<Rightarrow>
          (case py_iter ingredients of
             Inl e \<Rightarrow> Inl e
           | Inr items \<Rightarrow>
               Inr ([SetFont font_name (py ''B'') 14,
                     Cell 0 10 [Lit (py ''Ingredients'')] 0 1 [],
                     SetFont font_name [] 12]
                    @ map (\<lambda>item. MultiCell 0 8 [Lit [8226, 32], Val item] (py ''J'')) items
                    @ [Ln 8])))"

text \<open>
  The loop over \<open>enumerate(recipe_data['instructions'], 1)\<close>; \<open>re.sub\<close> raises
  \<open>TypeError\<close> on a step that is not a string.
\<close>

fun instruction_ops :: "nat \<Rightarrow> json list \<Rightarrow> py_exception + pdf_op list" where
  "instruction_ops i [] = Inr []"
| "instruction_ops i (JString step # steps) =
     (case instruction_ops (Suc i) steps of
        Inl e \<Rightarrow> Inl e
      | Inr ops \<Rightarrow>
          Inr (MultiCell 0 8 [Val (JInt (int i)), Lit (py ''. ''), Lit (clean_step step)] (py ''J'')
               # Ln 1 # ops))"
| "instruction_ops i (step # steps) = Inl TypeError"

definition instructions_block :: "json \<Rightarrow> py_exception + pdf_op list" where
  "instructions_block recipe_data =
     (case getitem_key recipe_data (py ''instructions'') of
        Inl e \<Rightarrow> Inl e
      | Inr instructions \<Rightarrow>
          (case py_iter instructions of
             Inl e \<Rightarrow> Inl e
           | Inr steps \<Rightarrow>
               (case instruction_ops 1 steps of
                  Inl e \<Rightarrow> Inl e
                | Inr ops \<Rightarrow>
                    Inr ([SetFont font_name (py ''B'') 14,
                          Cell 0 10 [Lit (py ''Instructions'')] 0 1 [],
                          SetFont font_name [] 12]
                         @ ops))))"

text \<open>
  \<open>create_recipe_pdf\<close>: the calls that make up the document, or the exception that leaves
  the function, and the files on disk afterwards. \<open>add_font\<close> fails when a font file is
  missing. \<open>pdf.output(dest="S")\<close>, the last call, embeds the fonts and serialises the
  pages, and raises on a text FPDF cannot embed (\<open>IndexError\<close> on a code point above
  U+FFFF).
\<close>

definition create_recipe_pdf ::
  "world \<Rightarrow> json \<Rightarrow> json \<Rightarrow> json \<Rightarrow> files \<Rightarrow> (py_exception + pdf_op list) \<times> files" where
  "create_recipe_pdf w recipe_data nutrition_data image_url fs =
     (if \<not> fonts_found w then (Inl FPDFException, fs)
      else
        (case title_block recipe_data of
           Inl e \<Rightarrow> (Inl e, fs)
         | Inr title_ops \<Rightarrow>
             (case image_block w image_url fs of
                (Inl e, fs') \<Rightarrow> (Inl e, fs')
              | (Inr image_ops, fs') \<Rightarrow>
                  (case nutrition_block nutrition_data of
                     Inl e \<Rightarrow> (Inl e, fs')
                   | Inr nutrition_ops \<Rightarrow>
                       (case ingredients_block recipe_data of
                          Inl e \<Rightarrow> (Inl e, fs')
                        | Inr ingredients_ops \<Rightarrow>
                            (case instructions_block recipe_data of
                               Inl e \<Rightarrow> (Inl e, fs')
                             | Inr instructions_ops \<Rightarrow>
                                 (let ops = add_fonts @ [AddPage] @ title_ops @ image_ops
                                        @ nutrition_ops @ ingredients_ops @ instructions_ops
                                  in if output_fails w ops then (Inl IndexError, fs')
                                     else (Inr ops, fs'))))))))"

section \<open>The session and the generate button\<close>

text \<open>
  The three slots of \<open>st.session_state\<close>; Python's \<open>None\<close>, their value at start-up, is
  \<open>JNull\<close>.
\<close>

record session =
  recipe_data :: json
  nutrition_data :: json
  image_url :: json

definition empty_session :: session where
  "empty_session = \<lparr>recipe_data = JNull, nutrition_data = JNull, image_url = JNull\<rparr>"

text \<open>
  The body of \<open>if st.button("Generate My Recipe!")\<close>: the session afterwards and the
  notices shown. Every exception raised inside the \<open>try\<close> ends the run at that point.
  The two text tools are run with strings (the text input, the select box, the result of
  \<open>json.dumps\<close>), which their wrappers pass on; the image tool is run with whatever
  value the recipe holds under \<open>image_keywords\<close>.
\<close>

definition generate_button ::
  "world \<Rightarrow> pystr \<Rightarrow> pystr \<Rightarrow> session \<Rightarrow> session \<times> notice list" where
  "generate_button w ingredients dietary_needs st =
     (if ingredients = [] then (st, [StWarning (py ''Please enter at least one ingredient.'')])
      else
        (let (recipe_json_str, notes1) = create_recipe w ingredients dietary_needs
         in case json_loads recipe_json_str of
              None \<Rightarrow> (st, notes1 @ [StError (py ''An error occurred: '')])
            | Some recipe \<Rightarrow>
                (let st1 = st\<lparr>recipe_data := recipe\<rparr>
                 in case getitem_key recipe (py ''image_keywords'') of
                      Inl e \<Rightarrow> (st1, notes1 @ [StError (py ''An error occurred: '')])
                    | Inr keywords \<Rightarrow>
                        (case generate_recipe_image_run w keywords of
                           Inl e \<Rightarrow> (st1, notes1 @ [StError (py ''An error occurred: '')])
                         | Inr (url, sent) \<Rightarrow>
                             (let st2 = st1\<lparr>image_url := url\<rparr>;
                                  (nutrition_json_str, notes2) =
                                    get_nutritional_info w (json_dumps (float_repr w) recipe)
                              in case json_loads nutrition_json_str of
                                   None \<Rightarrow>
                                     (st2, notes1 @ notes2 @ [StError (py ''An error occurred: '')])
                                 | Some nutrition \<Rightarrow>
                                     (st2\<lparr>nutrition_data := nutrition\<rparr>, notes1 @ notes2))))))"

section \<open>A world for the examples\<close>

text \<open>
  No service answers: the model raises, no API key is set and every request fails. A
  body, should one arrive, is ASCII text, and FPDF can serialise every document. The
  examples below change one field at a time.
\<close>

definition offline_world :: world where
  "offline_world =
     \<lparr>llm = (\<lambda>prompt. LlmRaises),
      PEXELS_API_KEY = None,
      http_get = (\<lambda>req. RequestRaises),
      decode_body = (\<lambda>content. content),
      tmp_name = py ''/tmp/tmpk3x9.jpg'',
      write_fails = False,
      image_decodes = (\<lambda>content. True),
      fonts_found = True,
      output_fails = (\<lambda>ops. False),
      float_repr = (\<lambda>lit. lit),
      float_bool = (\<lambda>lit. True)\<rparr>"

text \<open>An API key is set and every request gets the same answer.\<close>

definition keyed_world :: "http_result \<Rightarrow> world" where
  "keyed_world answer =
     offline_world\<lparr>PEXELS_API_KEY := Some (py ''key''), http_get := (\<lambda>req. answer)\<rparr>"

text \<open>
  The decoding of an ASCII body as \<open>utf-8-sig\<close>: the three bytes of a byte order mark at
  the start are dropped.
\<close>

definition drop_mark :: "pystr \<Rightarrow> pystr" where
  "drop_mark content = (if startswith content [239, 187, 191] then drop 3 content else content)"

text \<open>
  The model answers the recipe prompt with one text and every other prompt with another.
\<close>

definition chef_world :: "pystr \<Rightarrow> pystr \<Rightarrow> world" where
  "chef_world recipe_answer nutrition_answer =
     offline_world
       \<lparr>llm := (\<lambda>prompt.
          if py_in (py ''You are a creative chef.'') prompt then LlmContent recipe_answer
          else LlmContent nutrition_answer)\<rparr>"

section \<open>Evaluation on concrete inputs\<close>

text \<open>
  The scanner's equations at a numeral bound, and the definitions a concrete parse unfolds.
\<close>

lemmas scan_numeral =
  scan_once.simps(2,3)[of "pred_numeral k", folded numeral_eq_Suc]
  array_loop.simps(2)[of "pred_numeral k", folded numeral_eq_Suc]
  object_loop.simps(2)[of "pred_numeral k", folded numeral_eq_Suc] for k

lemmas json_eval =
  json_loads_def py_def startswith_def skip_ws_def json_ws_def is_digit_def scan_numeral
  match_number_def match_integer_def match_frac_def match_exp_def int_of_literal_def
  int_max_str_digits_def
  nat_of_digits_def dict_of_pairs_def cons_chr_def backslash_def decode_uXXXX_def hex_val_def

lemmas clean_eval =
  clean_step_def sub_number_prefix_def number_prefix_def is_digit_def is_prefix_sep_def
  is_space_def py_strip_def py_def Let_def

declare py_replace.simps [simp del]

lemmas dumps_eval =
  encode_basestring_ascii_def escape_ascii_def int_repr_def py_def

lemmas fence_eval =
  strip_fences_def fence_def py_replace.simps startswith_def py_strip_def is_space_def py_def

section \<open>The recursion bound of the scanner\<close>

text \<open>
  Every scan that succeeds consumes input, so the bound \<open>json_loads\<close> passes to the
  scanner is never reached: \<open>None\<close> from \<open>json_loads\<close> always stands for a
  \<open>JSONDecodeError\<close>.
\<close>

lemma length_skip_ws: "length (skip_ws s) \<le> length s"
  by (simp add: skip_ws_def length_dropWhile_le)

lemma skip_ws_Cons: "skip_ws s = d # ds \<Longrightarrow> length ds < length s"
  using length_skip_ws [of s] by simp

lemma cons_chr_Some: "cons_chr c x = Some (str, r) \<Longrightarrow> \<exists>str'. x = Some (str', r)"
  by (auto simp: cons_chr_def split: option.splits)

lemma scanstring_shorter: "scanstring s = Some (str, r) \<Longrightarrow> length r < length s"
proof (induction "length s" arbitrary: s str rule: less_induct)
  case less
  show ?case
  proof (cases s)
    case Nil
    then show ?thesis using less.prems by simp
  next
    case (Cons c cs)
    have ih: "\<And>s' str'. scanstring s' = Some (str', r) \<Longrightarrow> length s' \<le> length cs \<Longrightarrow> length r < length cs"
    proof -
      fix s' str'
      assume "scanstring s' = Some (str', r)" and le: "length s' \<le> length cs"
      then have "length r < length s'"
        using less.hyps [of s' str'] Cons by simp
      then show "length r < length cs"
        using le by simp
    qed
    have "r = cs \<or> (\<exists>s' str'. scanstring s' = Some (str', r) \<and> length s' \<le> length cs)"
      using less.prems unfolding Cons
      by (auto split: if_splits list.splits option.splits dest!: cons_chr_Some)
    then show ?thesis
    proof
      assume "r = cs"
      then show ?thesis using Cons by simp
    next
      assume "\<exists>s' str'. scanstring s' = Some (str', r) \<and> length s' \<le> length cs"
      then obtain s' str' where "scanstring s' = Some (str', r)" "length s' \<le> length cs"
        by blast
      then have "length r < length cs"
        by (rule ih)
      then show ?thesis using Cons by simp
    qed
  qed
qed

lemma length_dropWhile_less: "xs \<noteq> [] \<Longrightarrow> P (hd xs) \<Longrightarrow> length (dropWhile P xs) < length xs"
  by (cases xs) (auto simp: less_Suc_eq_le length_dropWhile_le)

lemma match_integer_shorter: "match_integer s = Some (i, r) \<Longrightarrow> length r < length s"
  unfolding match_integer_def
  by (auto simp: Let_def less_Suc_eq_le length_dropWhile_le le_SucI
      split: list.splits if_splits prod.splits)

lemma match_frac_shorter: "match_frac s = (f, r) \<Longrightarrow> length r \<le> length s"
  unfolding match_frac_def
  by (auto simp: length_dropWhile_le le_SucI split: list.splits if_splits)

lemma match_exp_shorter: "match_exp s = (e, r) \<Longrightarrow> length r \<le> length s"
  unfolding match_exp_def
  by (auto simp: Let_def length_dropWhile_le le_SucI split: list.splits if_splits prod.splits)

lemma match_number_shorter: "match_number s = Number v r \<Longrightarrow> length r < length s"
  unfolding match_number_def
  by (auto simp: Let_def split: option.splits prod.splits if_splits
      dest!: match_integer_shorter match_frac_shorter match_exp_shorter)


lemma scan_once_Suc_shorter:
  assumes al: "\<And>s v r vs. array_loop n s vs = Scanned (v, r) \<Longrightarrow> length r < length s"
    and ol: "\<And>s v r ps. object_loop n s ps = Scanned (v, r) \<Longrightarrow> length r < length s"
    and res: "scan_once (Suc n) s = Scanned (v, r)"
  shows "length r < length s"
proof (cases s)
  case Nil
  then show ?thesis using res by simp
next
  case (Cons c cs)
  show ?thesis
  proof (cases "c = 34")
    case True
    then obtain str where "scanstring cs = Some (str, r)"
      using res Cons by (simp split: option.splits prod.splits)
    then have "length r < length cs"
      by (rule scanstring_shorter)
    then show ?thesis
      using Cons by simp
  next
    case n34: False
    show ?thesis
    proof (cases "c = 123")
      case True
      then obtain d ds where d: "skip_ws cs = d # ds"
        using res Cons n34 by (cases "skip_ws cs") simp_all
      then have ds: "length ds < length cs"
        by (rule skip_ws_Cons)
      have "r = ds \<or> object_loop n ds [] = Scanned (v, r)"
        using res Cons n34 True d by (simp split: if_splits)
      then show ?thesis
        using ds ol [of ds "[]" v r] Cons by auto
    next
      case n123: False
      show ?thesis
      proof (cases "c = 91")
        case True
        then obtain d ds where d: "skip_ws cs = d # ds"
          using res Cons n34 n123 by (cases "skip_ws cs") simp_all
        then have ds: "length ds < length cs"
          by (rule skip_ws_Cons)
        have "r = ds \<or> array_loop n (d # ds) [] = Scanned (v, r)"
          using res Cons n34 n123 True d by (simp split: if_splits)
        then show ?thesis
          using ds al [of "d # ds" "[]" v r] Cons by auto
      next
        case n91: False
        have "r = drop 4 (c # cs) \<or> r = drop 5 (c # cs) \<or> r = drop 3 (c # cs)
            \<or> r = drop 8 (c # cs) \<or> r = drop 9 (c # cs) \<or> match_number (c # cs) = Number v r"
          using res n34 n123 n91 unfolding Cons
          by (simp split: if_splits number_match.splits)
        then show ?thesis
          using match_number_shorter [of "c # cs" v r] Cons by auto
      qed
    qed
  qed
qed


lemma array_loop_Scanned:
  "array_loop (Suc n) s vs = Scanned (v, r) \<Longrightarrow>
   \<exists>v0 r0 d ds. scan_once n s = Scanned (v0, r0) \<and> skip_ws r0 = d # ds
     \<and> (r = ds \<or> array_loop n (skip_ws ds) (vs @ [v0]) = Scanned (v, r))"
  by (simp split: scan.splits prod.splits list.splits if_splits)

lemma array_loop_Exhausted:
  "array_loop (Suc n) s vs = Exhausted \<Longrightarrow>
   scan_once n s = Exhausted
   \<or> (\<exists>v0 r0 d ds. scan_once n s = Scanned (v0, r0) \<and> skip_ws r0 = d # ds
        \<and> array_loop n (skip_ws ds) (vs @ [v0]) = Exhausted)"
  by (simp split: scan.splits prod.splits list.splits if_splits)

lemma object_loop_Scanned:
  "object_loop (Suc n) s ps = Scanned (v, r) \<Longrightarrow>
   \<exists>key r0 colon r1 v0 r2 d ds.
     scanstring s = Some (key, r0) \<and> skip_ws r0 = colon # r1
     \<and> scan_once n (skip_ws r1) = Scanned (v0, r2) \<and> skip_ws r2 = d # ds
     \<and> (r = ds
          \<or> (\<exists>q r3. skip_ws ds = q # r3
                \<and> object_loop n r3 (ps @ [(key, v0)]) = Scanned (v, r)))"
  by (simp split: option.splits scan.splits prod.splits list.splits if_splits)

lemma object_loop_Exhausted:
  "object_loop (Suc n) s ps = Exhausted \<Longrightarrow>
   \<exists>key r0 colon r1.
     scanstring s = Some (key, r0) \<and> skip_ws r0 = colon # r1
     \<and> (scan_once n (skip_ws r1) = Exhausted
          \<or> (\<exists>v0 r2 d ds q r3.
                scan_once n (skip_ws r1) = Scanned (v0, r2) \<and> skip_ws r2 = d # ds
                \<and> skip_ws ds = q # r3
                \<and> object_loop n r3 (ps @ [(key, v0)]) = Exhausted))"
  by (simp split: option.splits scan.splits prod.splits list.splits if_splits)

lemma scan_once_Exhausted:
  "scan_once (Suc n) s = Exhausted \<Longrightarrow>
   \<exists>c cs d ds. s = c # cs \<and> skip_ws cs = d # ds
     \<and> (object_loop n ds [] = Exhausted \<or> array_loop n (d # ds) [] = Exhausted)"
proof (cases s)
  case Nil
  assume "scan_once (Suc n) s = Exhausted"
  then show ?thesis using Nil by simp
next
  case (Cons c cs)
  assume res: "scan_once (Suc n) s = Exhausted"
  show ?thesis
  proof (cases "c = 34")
    case True
    then show ?thesis
      using res Cons by (simp split: option.splits prod.splits)
  next
    case n34: False
    show ?thesis
    proof (cases "c = 123")
      case True
      then show ?thesis
        using res Cons n34 by (cases "skip_ws cs") (simp_all split: if_splits)
    next
      case n123: False
      show ?thesis
      proof (cases "c = 91")
        case True
        then show ?thesis
          using res Cons n34 n123 by (cases "skip_ws cs") (simp_all split: if_splits)
      next
        case n91: False
        show ?thesis
          using res n34 n123 n91 unfolding Cons
          by (simp split: if_splits number_match.splits)
      qed
    qed
  qed
qed


lemma scan_shorter:
  "(\<forall>s v r. scan_once n s = Scanned (v, r) \<longrightarrow> length r < length s)
   \<and> (\<forall>s vs v r. array_loop n s vs = Scanned (v, r) \<longrightarrow> length r < length s)
   \<and> (\<forall>s ps v r. object_loop n s ps = Scanned (v, r) \<longrightarrow> length r < length s)"
proof (induction n)
  case 0
  show ?case by simp
next
  case (Suc n)
  have so: "\<And>s v r. scan_once n s = Scanned (v, r) \<Longrightarrow> length r < length s"
    and al: "\<And>s v r vs. array_loop n s vs = Scanned (v, r) \<Longrightarrow> length r < length s"
    and ol: "\<And>s v r ps. object_loop n s ps = Scanned (v, r) \<Longrightarrow> length r < length s"
    using Suc.IH by blast+
  have 1: "length r < length s" if h: "scan_once (Suc n) s = Scanned (v, r)" for s v r
    using al ol h by (rule scan_once_Suc_shorter)
  have 2: "length r < length s" if h: "array_loop (Suc n) s vs = Scanned (v, r)" for s vs v r
  proof -
    obtain v0 r0 d ds where a: "scan_once n s = Scanned (v0, r0)" "skip_ws r0 = d # ds"
      and b: "r = ds \<or> array_loop n (skip_ws ds) (vs @ [v0]) = Scanned (v, r)"
      using array_loop_Scanned [OF h] by (elim exE conjE) (rule that)
    have l: "length r0 < length s" "length ds < length r0"
      using so [OF a(1)] skip_ws_Cons [OF a(2)] by simp_all
    show ?thesis
      using b
    proof
      assume "r = ds"
      then show ?thesis using l by simp
    next
      assume "array_loop n (skip_ws ds) (vs @ [v0]) = Scanned (v, r)"
      then have "length r < length (skip_ws ds)"
        by (rule al)
      then show ?thesis
        using l length_skip_ws [of ds] by simp
    qed
  qed
  have 3: "length r < length s" if h: "object_loop (Suc n) s ps = Scanned (v, r)" for s ps v r
  proof -
    obtain key r0 colon r1 v0 r2 d ds where
      a: "scanstring s = Some (key, r0)" "skip_ws r0 = colon # r1"
         "scan_once n (skip_ws r1) = Scanned (v0, r2)" "skip_ws r2 = d # ds"
      and b: "r = ds \<or> (\<exists>q r3. skip_ws ds = q # r3
                \<and> object_loop n r3 (ps @ [(key, v0)]) = Scanned (v, r))"
      using object_loop_Scanned [OF h] by (elim exE conjE) (rule that)
    have l: "length r0 < length s" "length r1 < length r0" "length r2 < length (skip_ws r1)"
      "length ds < length r2"
      using scanstring_shorter [OF a(1)] skip_ws_Cons [OF a(2)] so [OF a(3)] skip_ws_Cons [OF a(4)]
      by simp_all
    then have ds: "length ds < length s"
      using length_skip_ws [of r1] by simp
    show ?thesis
      using b
    proof
      assume "r = ds"
      then show ?thesis using ds by simp
    next
      assume "\<exists>q r3. skip_ws ds = q # r3 \<and> object_loop n r3 (ps @ [(key, v0)]) = Scanned (v, r)"
      then obtain q r3 where c: "skip_ws ds = q # r3"
        "object_loop n r3 (ps @ [(key, v0)]) = Scanned (v, r)"
        by blast
      have "length r < length r3" "length r3 < length ds"
        using ol [OF c(2)] skip_ws_Cons [OF c(1)] by simp_all
      then show ?thesis
        using ds by simp
    qed
  qed
  show ?case
    using 1 2 3 by blast
qed

lemma scan_once_shorter: "scan_once n s = Scanned (v, r) \<Longrightarrow> length r < length s"
  using scan_shorter by blast

lemma scan_fuel:
  "(\<forall>s. 2 * length s < n \<longrightarrow> scan_once n s \<noteq> Exhausted)
   \<and> (\<forall>s vs. 2 * length s + 1 < n \<longrightarrow> array_loop n s vs \<noteq> Exhausted)
   \<and> (\<forall>s ps. 2 * length s + 1 < n \<longrightarrow> object_loop n s ps \<noteq> Exhausted)"
proof (induction n)
  case 0
  show ?case by simp
next
  case (Suc n)
  have so: "\<And>s. 2 * length s < n \<Longrightarrow> scan_once n s \<noteq> Exhausted"
    and al: "\<And>s vs. 2 * length s + 1 < n \<Longrightarrow> array_loop n s vs \<noteq> Exhausted"
    and ol: "\<And>s ps. 2 * length s + 1 < n \<Longrightarrow> object_loop n s ps \<noteq> Exhausted"
    using Suc.IH by blast+
  have 1: "scan_once (Suc n) s \<noteq> Exhausted" if n: "2 * length s < Suc n" for s
  proof
    assume h: "scan_once (Suc n) s = Exhausted"
    obtain c cs d ds where a: "s = c # cs" "skip_ws cs = d # ds"
      and b: "object_loop n ds [] = Exhausted \<or> array_loop n (d # ds) [] = Exhausted"
      using scan_once_Exhausted [OF h] by (elim exE conjE) (rule that)
    have "length ds < length cs"
      using a(2) by (rule skip_ws_Cons)
    then have "2 * length ds + 1 < n" "2 * length (d # ds) + 1 < n"
      using n a(1) by simp_all
    then show False
      using b ol [of ds "[]"] al [of "d # ds" "[]"] by blast
  qed
  have 2: "array_loop (Suc n) s vs \<noteq> Exhausted" if n: "2 * length s + 1 < Suc n" for s vs
  proof
    assume h: "array_loop (Suc n) s vs = Exhausted"
    consider "scan_once n s = Exhausted"
      | v0 r0 d ds where "scan_once n s = Scanned (v0, r0)" "skip_ws r0 = d # ds"
          "array_loop n (skip_ws ds) (vs @ [v0]) = Exhausted"
      using array_loop_Exhausted [OF h] by blast
    then show False
    proof cases
      case 1
      then show ?thesis using so [of s] n by simp
    next
      case 2
      have "length r0 < length s" "length ds < length r0"
        using scan_once_shorter [OF 2(1)] skip_ws_Cons [OF 2(2)] by simp_all
      then have "2 * length (skip_ws ds) + 1 < n"
        using n length_skip_ws [of ds] by simp
      then show ?thesis
        using 2(3) al by blast
    qed
  qed
  have 3: "object_loop (Suc n) s ps \<noteq> Exhausted" if n: "2 * length s + 1 < Suc n" for s ps
  proof
    assume h: "object_loop (Suc n) s ps = Exhausted"
    obtain key r0 colon r1 where
      a: "scanstring s = Some (key, r0)" "skip_ws r0 = colon # r1"
      and b: "scan_once n (skip_ws r1) = Exhausted
          \<or> (\<exists>v0 r2 d ds q r3.
                scan_once n (skip_ws r1) = Scanned (v0, r2) \<and> skip_ws r2 = d # ds
                \<and> skip_ws ds = q # r3
                \<and> object_loop n r3 (ps @ [(key, v0)]) = Exhausted)"
      using object_loop_Exhausted [OF h] by (elim exE conjE) (rule that)
    have l: "length r0 < length s" "length r1 < length r0"
      using scanstring_shorter [OF a(1)] skip_ws_Cons [OF a(2)] by simp_all
    then have r1: "2 * length (skip_ws r1) < n"
      using n length_skip_ws [of r1] by simp
    show False
      using b
    proof
      assume "scan_once n (skip_ws r1) = Exhausted"
      then show False using so r1 by blast
    next
      assume "\<exists>v0 r2 d ds q r3.
                scan_once n (skip_ws r1) = Scanned (v0, r2) \<and> skip_ws r2 = d # ds
                \<and> skip_ws ds = q # r3
                \<and> object_loop n r3 (ps @ [(key, v0)]) = Exhausted"
      then obtain v0 r2 d ds q r3 where
        c: "scan_once n (skip_ws r1) = Scanned (v0, r2)" "skip_ws r2 = d # ds"
          "skip_ws ds = q # r3" "object_loop n r3 (ps @ [(key, v0)]) = Exhausted"
        by blast
      have "length r2 < length (skip_ws r1)" "length ds < length r2" "length r3 < length ds"
        using scan_once_shorter [OF c(1)] skip_ws_Cons [OF c(2)] skip_ws_Cons [OF c(3)]
        by simp_all
      then have "2 * length r3 + 1 < n"
        using r1 by simp
      then show False
        using c(4) ol by blast
    qed
  qed
  show ?case
    using 1 2 3 by blast
qed

lemma scan_once_not_Exhausted: "scan_once (2 * length s + 2) (skip_ws s) \<noteq> Exhausted"
proof -
  have "2 * length (skip_ws s) < 2 * length s + 2"
    using length_skip_ws [of s] by simp
  then show ?thesis
    using scan_fuel by blast
qed

lemma json_loads_None_iff:
  "json_loads s = None \<longleftrightarrow>
     startswith s [65279]
     \<or> scan_once (2 * length s + 2) (skip_ws s) = Invalid
     \<or> (\<exists>v r. scan_once (2 * length s + 2) (skip_ws s) = Scanned (v, r) \<and> skip_ws r \<noteq> [])"
  using scan_once_not_Exhausted [of s]
  by (cases "scan_once (2 * length s + 2) (skip_ws s)") (auto simp: json_loads_def)

text \<open>
  The digit limit of \<open>int\<close>: a text that is one integer of more than 4300 digits does not
  parse.
\<close>

lemma match_integer_digits:
  assumes "\<forall>d\<in>set ds. is_digit d" "ds \<noteq> []" "hd ds \<noteq> 48"
  shows "match_integer ds = Some (ds, [])"
proof (cases ds)
  case Nil
  then show ?thesis using assms by simp
next
  case (Cons d ds')
  have d: "is_digit d" "d \<noteq> 48" "d \<noteq> 45"
    using assms Cons by (auto simp: is_digit_def)
  have "takeWhile is_digit ds = ds" "dropWhile is_digit ds = []"
    using assms(1) by (simp_all add: takeWhile_eq_all_conv)
  then show ?thesis
    using d unfolding match_integer_def Cons by simp
qed

lemma match_number_long_integer:
  assumes "\<forall>d\<in>set ds. is_digit d" "ds \<noteq> []" "hd ds \<noteq> 48" "int_max_str_digits < length ds"
  shows "match_number ds = IntRefused"
proof -
  have "filter is_digit ds = ds"
    using assms(1) by (simp add: filter_id_conv)
  then show ?thesis
    using assms(4) match_integer_digits [OF assms(1,2,3)]
    by (simp add: match_number_def match_frac_def match_exp_def)
qed

lemma long_integer_refused:
  assumes "\<forall>d\<in>set ds. is_digit d" "ds \<noteq> []" "hd ds \<noteq> 48" "int_max_str_digits < length ds"
  shows "json_loads ds = None"
proof -
  obtain d ds' where ds: "ds = d # ds'"
    using assms(2) by (cases ds) auto
  have d: "48 \<le> d" "d \<le> 57"
    using assms(1) ds by (auto simp: is_digit_def)
  have ws: "skip_ws ds = ds"
    using d by (simp add: ds skip_ws_def json_ws_def)
  have "scan_once (Suc (2 * length ds + 1)) (d # ds') = Invalid"
    using d match_number_long_integer [OF assms] unfolding ds [symmetric]
    by (simp add: ds startswith_def py_def)
  then have inv: "scan_once (2 * length ds + 2) ds = Invalid"
    by (simp add: ds)
  have "\<not> startswith ds [65279]"
    using d by (simp add: ds startswith_def)
  then show ?thesis
    unfolding json_loads_def ws inv by simp
qed

lemma long_integer_example: "json_loads (replicate 4301 49) = None"
  by (rule long_integer_refused) (simp_all add: is_digit_def int_max_str_digits_def)

section \<open>The download file name\<close>

text \<open>
  Claim C9. The download file name is the recipe title with every character outside
  \<open>[a-zA-Z0-9]\<close> replaced by an underscore (code point 95), followed by \<open>.pdf\<close>; the
  title \<open>Spicy Garlic Shrimp!\<close> gives \<open>Spicy_Garlic_Shrimp_.pdf\<close>.
\<close>

theorem download_file_name_underscores:
  "download_file_name title =
     map (\<lambda>c. if (97 \<le> c \<and> c \<le> 122) \<or> (65 \<le> c \<and> c \<le> 90) \<or> (48 \<le> c \<and> c \<le> 57) then c else 95)
       title @ py ''.pdf''
   \<and> download_file_name (py ''Spicy Garlic Shrimp!'') = py ''Spicy_Garlic_Shrimp_.pdf''"
proof
  show "download_file_name title =
     map (\<lambda>c. if (97 \<le> c \<and> c \<le> 122) \<or> (65 \<le> c \<and> c \<le> 90) \<or> (48 \<le> c \<and> c \<le> 57) then c else 95)
       title @ py ''.pdf''"
    by (induction title)
      (simp_all add: download_file_name_def re_sub_class_def not_alnum_def py_def
        is_lower_def is_upper_def is_digit_def)
  show "download_file_name (py ''Spicy Garlic Shrimp!'') = py ''Spicy_Garlic_Shrimp_.pdf''"
    by (simp add: download_file_name_def re_sub_class_def not_alnum_def py_def
        is_lower_def is_upper_def is_digit_def)
qed

section \<open>Cleaning an instruction\<close>

lemma dropWhile_snoc_keep: "\<not> P x \<Longrightarrow> \<exists>zs. dropWhile P (ys @ [x]) = zs @ [x]"
  by (induction ys) auto

lemma py_strip_idem: "py_strip (py_strip s) = py_strip s"
proof (cases "dropWhile is_space s")
  case Nil
  show ?thesis unfolding py_strip_def Nil by simp
next
  case (Cons x ys)
  then have nx: "\<not> is_space x"
    by (metis hd_dropWhile list.sel(1) list.distinct(1))
  obtain zs where zs: "dropWhile is_space (rev ys @ [x]) = zs @ [x]"
    using dropWhile_snoc_keep [of is_space x "rev ys"] nx by blast
  have b: "py_strip s = x # rev zs"
    by (simp add: py_strip_def Cons zs)
  have "dropWhile is_space (zs @ [x]) = zs @ [x]"
    using zs by (metis dropWhile_idem)
  then show ?thesis
    by (simp add: b) (simp add: py_strip_def nx)
qed

lemma length_py_strip: "length (py_strip s) \<le> length s"
  unfolding py_strip_def by (metis dual_order.trans length_dropWhile_le length_rev)

lemma number_prefix_Some: "number_prefix t = Some m \<Longrightarrow> m \<noteq> [] \<and> t \<noteq> []"
  by (auto simp: number_prefix_def Let_def split: if_splits)

lemma clean_step_idem_iff:
  "(clean_step (clean_step s) = clean_step s) = (number_prefix (clean_step s) = None)"
proof (cases "number_prefix (clean_step s)")
  case None
  have "py_strip (clean_step s) = clean_step s"
    by (simp add: clean_step_def py_strip_idem)
  with None show ?thesis
    by (simp add: clean_step_def [of "clean_step s"] sub_number_prefix_def)
next
  case (Some m)
  then have m: "m \<noteq> []" and t: "clean_step s \<noteq> []"
    using number_prefix_Some by blast+
  have "length (clean_step (clean_step s)) \<le> length (drop (length m) (clean_step s))"
    by (simp add: clean_step_def [of "clean_step s"] sub_number_prefix_def Some
        length_py_strip del: length_drop)
  also have "\<dots> < length (clean_step s)"
    using m t by simp
  finally show ?thesis
    using Some by auto
qed

lemma clean_step_no_digit: "\<not> is_digit c \<Longrightarrow> clean_step (c # r) = py_strip (c # r)"
  by (simp add: clean_step_def sub_number_prefix_def number_prefix_def)

text \<open>
  Claim C6, as stated, fails: cleaning is not idempotent on every string. A step that
  carries two numeral prefixes loses one of them at each application:
  \<open>1. 2. Mix\<close> becomes \<open>2. Mix\<close>, which becomes \<open>Mix\<close>.
\<close>

theorem clean_step_not_idempotent:
  "clean_step (py ''1. 2. Mix'') = py ''2. Mix''
   \<and> clean_step (clean_step (py ''1. 2. Mix'')) = py ''Mix''
   \<and> clean_step (clean_step (py ''1. 2. Mix'')) \<noteq> clean_step (py ''1. 2. Mix'')"
  by (simp add: clean_eval)

text \<open>
  Claim C6, amended. Cleaning a second time changes nothing exactly when the cleaned
  text no longer starts with a numeral prefix (a match of \<open>^[0-9]+[.)\s]+\<close>); a text with
  no such prefix and no surrounding white space is left as it is. \<open>Preheat the oven\<close>
  is mapped to itself, \<open>1. Preheat the oven\<close> to \<open>Preheat the oven\<close> and \<open>2) Mix well\<close> to
  \<open>Mix well\<close>. A string whose first character is not a digit is only trimmed, so the
  bullets of \<open>a) Stir\<close> and \<open>- Stir\<close> stay.
\<close>

theorem clean_step_idempotent_on_clean_text:
  "(clean_step (clean_step s) = clean_step s) = (number_prefix (clean_step s) = None)
   \<and> (number_prefix s = None \<and> py_strip s = s \<longrightarrow> clean_step s = s)
   \<and> clean_step (py ''Preheat the oven'') = py ''Preheat the oven''
   \<and> clean_step (py ''1. Preheat the oven'') = py ''Preheat the oven''
   \<and> clean_step (py ''2) Mix well'') = py ''Mix well''
   \<and> (\<not> is_digit c \<longrightarrow> clean_step (c # r) = py_strip (c # r))
   \<and> clean_step (py ''a) Stir'') = py ''a) Stir''
   \<and> clean_step (py ''- Stir'') = py ''- Stir''"
proof (intro conjI)
  show "(clean_step (clean_step s) = clean_step s) = (number_prefix (clean_step s) = None)"
    by (rule clean_step_idem_iff)
  show "number_prefix s = None \<and> py_strip s = s \<longrightarrow> clean_step s = s"
    by (simp add: clean_step_def sub_number_prefix_def)
  show "\<not> is_digit c \<longrightarrow> clean_step (c # r) = py_strip (c # r)"
    by (simp add: clean_step_no_digit)
qed (simp_all add: clean_eval)

theorem clean_step_idempotent_on_clean_text_witness:
  "number_prefix (py ''Mix well'') = None \<and> py_strip (py ''Mix well'') = py ''Mix well''
   \<and> clean_step (py ''Mix well'') = py ''Mix well''
   \<and> clean_step (clean_step (py ''2) Mix well'')) = clean_step (py ''2) Mix well'')
   \<and> \<not> is_digit 45 \<and> clean_step (45 # py '' Stir'') = py_strip (45 # py '' Stir'')"
proof -
  have a: "number_prefix (py ''Mix well'') = None \<and> py_strip (py ''Mix well'') = py ''Mix well''"
    by (simp add: clean_eval)
  have b: "\<not> is_digit 45"
    by (simp add: is_digit_def)
  have c: "number_prefix (clean_step (py ''2) Mix well'')) = None"
    by (simp add: clean_eval)
  show ?thesis
    using a b c
      clean_step_idempotent_on_clean_text [of "py ''Mix well''" 45 "py '' Stir''"]
      clean_step_idempotent_on_clean_text [of "py ''2) Mix well''" 45 "py '' Stir''"]
    by blast
qed

section \<open>Code fence stripping\<close>

lemma py_in_iff: "py_in sub s \<longleftrightarrow> (\<exists>ps ss. s = ps @ sub @ ss)"
proof (induction s)
  case Nil
  then show ?case by auto
next
  case (Cons c cs)
  show ?case
  proof
    assume "py_in sub (c # cs)"
    then consider "startswith (c # cs) sub" | "py_in sub cs" by auto
    then show "\<exists>ps ss. c # cs = ps @ sub @ ss"
    proof cases
      case 1
      then have "c # cs = [] @ sub @ drop (length sub) (c # cs)"
        unfolding startswith_def by (metis append_Nil append_take_drop_id)
      then show ?thesis by blast
    next
      case 2
      then obtain ps ss where "cs = ps @ sub @ ss" using Cons.IH by blast
      then have "c # cs = (c # ps) @ sub @ ss" by simp
      then show ?thesis by blast
    qed
  next
    assume "\<exists>ps ss. c # cs = ps @ sub @ ss"
    then obtain ps ss where e: "c # cs = ps @ sub @ ss" by blast
    show "py_in sub (c # cs)"
    proof (cases ps)
      case Nil
      then have "startswith (c # cs) sub" using e by (simp add: startswith_def)
      then show ?thesis by simp
    next
      case (Cons p ps')
      then have "cs = ps' @ sub @ ss" using e by simp
      then show ?thesis using Cons.IH by auto
    qed
  qed
qed

















section \<open>The text tools\<close>

lemma dumps_failed_recipe:
  "json_dumps frepr failed_recipe =
     py ''{\"title\": \"Failed to generate recipe\", \"description\": \"Please try again.\", \"ingredients\": [], \"instructions\": [], \"image_keywords\": \"\"}''"
  by (simp add: failed_recipe_def dumps_eval)

lemma loads_failed_recipe:
  "json_loads (py ''{\"title\": \"Failed to generate recipe\", \"description\": \"Please try again.\", \"ingredients\": [], \"instructions\": [], \"image_keywords\": \"\"}'') = Some failed_recipe"
  by (simp add: failed_recipe_def json_eval)

lemma dumps_nutrition_unavailable:
  "json_dumps frepr nutrition_unavailable =
     py ''{\"calories\": 0, \"protein_grams\": 0, \"fat_grams\": 0, \"carbs_grams\": 0, \"summary\": \"Nutritional info unavailable.\"}''"
  by (simp add: nutrition_unavailable_def dumps_eval)

lemma loads_nutrition_unavailable:
  "json_loads (py ''{\"calories\": 0, \"protein_grams\": 0, \"fat_grams\": 0, \"carbs_grams\": 0, \"summary\": \"Nutritional info unavailable.\"}'') = Some nutrition_unavailable"
  by (simp add: nutrition_unavailable_def json_eval)

lemma invoke_json_parses:
  "json_loads (json_dumps (float_repr w) sentinel) = Some sentinel \<Longrightarrow>
   \<exists>v. json_loads (fst (invoke_json w prompt message sentinel)) = Some v"
  by (auto simp: invoke_json_def Let_def split: llm_result.splits option.splits)

lemma invoke_json_failure:
  "llm w prompt = LlmRaises \<or>
   (\<exists>c. llm w prompt = LlmContent c \<and> json_loads (strip_fences c) = None) \<Longrightarrow>
   invoke_json w prompt message sentinel = (json_dumps (float_repr w) sentinel, [StError message])"
  by (auto simp: invoke_json_def Let_def split: llm_result.splits option.splits)

lemma create_recipe_parses: "\<exists>v. json_loads (fst (create_recipe w ingredients dietary_needs)) = Some v"
  unfolding create_recipe_def
  by (rule invoke_json_parses) (simp add: dumps_failed_recipe loads_failed_recipe)

lemma get_nutritional_info_parses: "\<exists>v. json_loads (fst (get_nutritional_info w recipe_text)) = Some v"
  unfolding get_nutritional_info_def
  by (rule invoke_json_parses) (simp add: dumps_nutrition_unavailable loads_nutrition_unavailable)

lemma create_recipe_failure:
  "llm w (recipe_prompt i d) = LlmRaises \<or>
   (\<exists>c. llm w (recipe_prompt i d) = LlmContent c \<and> json_loads (strip_fences c) = None) \<Longrightarrow>
   create_recipe w i d =
     (py ''{\"title\": \"Failed to generate recipe\", \"description\": \"Please try again.\", \"ingredients\": [], \"instructions\": [], \"image_keywords\": \"\"}'',
      [StError (py ''Error generating recipe: '')])"
  unfolding create_recipe_def by (simp add: invoke_json_failure dumps_failed_recipe)

lemma get_nutritional_info_failure:
  "llm w (nutrition_prompt t) = LlmRaises \<or>
   (\<exists>c. llm w (nutrition_prompt t) = LlmContent c \<and> json_loads (strip_fences c) = None) \<Longrightarrow>
   get_nutritional_info w t =
     (py ''{\"calories\": 0, \"protein_grams\": 0, \"fat_grams\": 0, \"carbs_grams\": 0, \"summary\": \"Nutritional info unavailable.\"}'',
      [StError (py ''Error generating nutritional info: '')])"
  unfolding get_nutritional_info_def by (simp add: invoke_json_failure dumps_nutrition_unavailable)

text \<open>
  Claim C4, as stated, fails in its last part: the record returned on failure does not
  have an empty description. When the model raises, the description of the returned
  record is \<open>Please try again.\<close>.
\<close>

theorem failed_recipe_description_not_empty:
  "(case json_loads (fst (create_recipe offline_world (py ''chicken, broccoli, pasta'') (py ''None''))) of
      None \<Rightarrow> Inl JSONDecodeError
    | Some recipe \<Rightarrow> getitem_key recipe (py ''description''))
     = Inr (JString (py ''Please try again.''))
   \<and> JString (py ''Please try again.'') \<noteq> JString []"
proof -
  have "llm offline_world (recipe_prompt (py ''chicken, broccoli, pasta'') (py ''None'')) = LlmRaises"
    by (simp add: offline_world_def)
  then have "fst (create_recipe offline_world (py ''chicken, broccoli, pasta'') (py ''None''))
      = py ''{\"title\": \"Failed to generate recipe\", \"description\": \"Please try again.\", \"ingredients\": [], \"instructions\": [], \"image_keywords\": \"\"}''"
    by (simp add: create_recipe_failure)
  then show ?thesis
    by (simp add: loads_failed_recipe) (simp add: failed_recipe_def py_def)
qed

text \<open>
  Claim C4, amended. If the model raises, or answers with a text that is not valid JSON
  once the fences are stripped, \<open>create_recipe\<close> returns exactly the serialised sentinel,
  which parses to the record with title \<open>Failed to generate recipe\<close>, description
  \<open>Please try again.\<close> (not an empty one), no ingredients, no instructions and empty
  image keywords; the failure is shown as one error notice.
\<close>

theorem create_recipe_sentinel_on_failure:
  "llm w (recipe_prompt ingredients dietary_needs) = LlmRaises \<or>
   (\<exists>content. llm w (recipe_prompt ingredients dietary_needs) = LlmContent content
      \<and> json_loads (strip_fences content) = None)
   \<longrightarrow>
   fst (create_recipe w ingredients dietary_needs) =
     py ''{\"title\": \"Failed to generate recipe\", \"description\": \"Please try again.\", \"ingredients\": [], \"instructions\": [], \"image_keywords\": \"\"}''
   \<and> json_loads (fst (create_recipe w ingredients dietary_needs)) =
       Some
        (JObject
          [(py ''title'', JString (py ''Failed to generate recipe'')),
           (py ''description'', JString (py ''Please try again.'')),
           (py ''ingredients'', JArray []),
           (py ''instructions'', JArray []),
           (py ''image_keywords'', JString [])])
   \<and> snd (create_recipe w ingredients dietary_needs) = [StError (py ''Error generating recipe: '')]"
proof
  assume "llm w (recipe_prompt ingredients dietary_needs) = LlmRaises \<or>
   (\<exists>content. llm w (recipe_prompt ingredients dietary_needs) = LlmContent content
      \<and> json_loads (strip_fences content) = None)"
  then have "create_recipe w ingredients dietary_needs =
     (py ''{\"title\": \"Failed to generate recipe\", \"description\": \"Please try again.\", \"ingredients\": [], \"instructions\": [], \"image_keywords\": \"\"}'',
      [StError (py ''Error generating recipe: '')])"
    by (rule create_recipe_failure)
  then show "fst (create_recipe w ingredients dietary_needs) =
     py ''{\"title\": \"Failed to generate recipe\", \"description\": \"Please try again.\", \"ingredients\": [], \"instructions\": [], \"image_keywords\": \"\"}''
   \<and> json_loads (fst (create_recipe w ingredients dietary_needs)) =
       Some
        (JObject
          [(py ''title'', JString (py ''Failed to generate recipe'')),
           (py ''description'', JString (py ''Please try again.'')),
           (py ''ingredients'', JArray []),
           (py ''instructions'', JArray []),
           (py ''image_keywords'', JString [])])
   \<and> snd (create_recipe w ingredients dietary_needs) = [StError (py ''Error generating recipe: '')]"
    using loads_failed_recipe by (simp add: failed_recipe_def)
qed

theorem create_recipe_sentinel_on_failure_witness:
  "llm offline_world (recipe_prompt (py ''rice'') (py ''Vegan'')) = LlmRaises
   \<and> fst (create_recipe offline_world (py ''rice'') (py ''Vegan'')) =
       py ''{\"title\": \"Failed to generate recipe\", \"description\": \"Please try again.\", \"ingredients\": [], \"instructions\": [], \"image_keywords\": \"\"}''
   \<and> llm (offline_world\<lparr>llm := \<lambda>prompt. LlmContent (py ''I cannot help with that.'')\<rparr>)
        (recipe_prompt (py ''rice'') (py ''Vegan'')) = LlmContent (py ''I cannot help with that.'')
   \<and> json_loads (strip_fences (py ''I cannot help with that.'')) = None
   \<and> snd (create_recipe (offline_world\<lparr>llm := \<lambda>prompt. LlmContent (py ''I cannot help with that.'')\<rparr>)
        (py ''rice'') (py ''Vegan'')) = [StError (py ''Error generating recipe: '')]"
proof -
  have a: "llm offline_world (recipe_prompt (py ''rice'') (py ''Vegan'')) = LlmRaises"
    by (simp add: offline_world_def)
  have b: "llm (offline_world\<lparr>llm := \<lambda>prompt. LlmContent (py ''I cannot help with that.'')\<rparr>)
        (recipe_prompt (py ''rice'') (py ''Vegan'')) = LlmContent (py ''I cannot help with that.'')"
    by simp
  have "strip_fences (py ''I cannot help with that.'') = py ''I cannot help with that.''"
    by (simp add: fence_eval)
  then have c: "json_loads (strip_fences (py ''I cannot help with that.'')) = None"
    by (simp add: json_eval)
  show ?thesis
    using a b c
      create_recipe_sentinel_on_failure [of offline_world "py ''rice''" "py ''Vegan''"]
      create_recipe_sentinel_on_failure
        [of "offline_world\<lparr>llm := \<lambda>prompt. LlmContent (py ''I cannot help with that.'')\<rparr>"
          "py ''rice''" "py ''Vegan''"]
    by blast
qed

text \<open>
  Claim C1 at a failing input. The model answers \<open>{"title": "Soup"}\<close>, a JSON object
  without four of the five keys. \<open>create_recipe\<close> only checks that the text parses, so it
  returns the text as it is and shows no notice: the record is not replaced by the
  sentinel, and reading its \<open>image_keywords\<close> raises \<open>KeyError\<close>.
\<close>

theorem create_recipe_keeps_incomplete_record:
  "create_recipe (w\<lparr>llm := \<lambda>prompt. LlmContent (py ''{\"title\": \"Soup\"}'')\<rparr>)
     ingredients dietary_needs = (py ''{\"title\": \"Soup\"}'', [])
   \<and> json_loads (py ''{\"title\": \"Soup\"}'') = Some (JObject [(py ''title'', JString (py ''Soup''))])
   \<and> getitem_key (JObject [(py ''title'', JString (py ''Soup''))]) (py ''image_keywords'')
       = Inl KeyError"
proof -
  have a: "strip_fences (py ''{\"title\": \"Soup\"}'') = py ''{\"title\": \"Soup\"}''"
    by (simp add: fence_eval)
  have b: "json_loads (py ''{\"title\": \"Soup\"}'') = Some (JObject [(py ''title'', JString (py ''Soup''))])"
    by (simp add: json_eval)
  have c: "getitem_key (JObject [(py ''title'', JString (py ''Soup''))]) (py ''image_keywords'')
       = Inl KeyError"
    by (simp add: py_def)
  have d: "create_recipe (w\<lparr>llm := \<lambda>prompt. LlmContent (py ''{\"title\": \"Soup\"}'')\<rparr>)
     ingredients dietary_needs = (py ''{\"title\": \"Soup\"}'', [])"
    by (simp add: create_recipe_def invoke_json_def a b)
  show ?thesis
    using b c d by (intro conjI)
qed

text \<open>
  Claim C7 at a failing input. The model answers \<open>{"calories": 520}\<close>.
  \<open>get_nutritional_info\<close> returns the text as it is, which is not a nutrition record: the
  nutrition block of the PDF raises \<open>KeyError\<close> on it.
\<close>

theorem get_nutritional_info_keeps_incomplete_record:
  "get_nutritional_info (w\<lparr>llm := \<lambda>prompt. LlmContent (py ''{\"calories\": 520}'')\<rparr>) recipe_text
     = (py ''{\"calories\": 520}'', [])
   \<and> json_loads (py ''{\"calories\": 520}'') = Some (JObject [(py ''calories'', JInt 520)])
   \<and> nutrition_block (JObject [(py ''calories'', JInt 520)]) = Inl KeyError"
proof -
  have a: "strip_fences (py ''{\"calories\": 520}'') = py ''{\"calories\": 520}''"
    by (simp add: fence_eval)
  have b: "json_loads (py ''{\"calories\": 520}'') = Some (JObject [(py ''calories'', JInt 520)])"
    by (simp add: json_eval)
  have c: "nutrition_block (JObject [(py ''calories'', JInt 520)]) = Inl KeyError"
    by (simp add: nutrition_block_def py_def)
  have d: "get_nutritional_info (w\<lparr>llm := \<lambda>prompt. LlmContent (py ''{\"calories\": 520}'')\<rparr>) recipe_text
     = (py ''{\"calories\": 520}'', [])"
    by (simp add: get_nutritional_info_def invoke_json_def a b)
  show ?thesis
    using b c d by (intro conjI)
qed

text \<open>
  Neither text tool lets an exception out: whatever the model does, each returns a text
  that \<open>json.loads\<close> accepts, so the \<open>json.loads\<close> calls of the caller never raise.
\<close>

theorem text_tools_return_json:
  "(\<exists>recipe. json_loads (fst (create_recipe w ingredients dietary_needs)) = Some recipe)
   \<and> (\<exists>nutrition. json_loads (fst (get_nutritional_info w recipe_text)) = Some nutrition)"
  using create_recipe_parses get_nutritional_info_parses by blast

text \<open>
  If the model raises, or answers with a text that is not valid JSON once the fences are
  stripped, \<open>get_nutritional_info\<close> returns exactly the serialised sentinel (all four
  numbers 0, summary \<open>Nutritional info unavailable.\<close>) and shows one error notice. The
  recipe text only reaches the prompt: two recipe texts that get the same answer from the
  model get the same result, the text of the sentinel recipe included.
\<close>

theorem get_nutritional_info_sentinel_on_failure:
  "(llm w (nutrition_prompt recipe_text) = LlmRaises \<or>
    (\<exists>content. llm w (nutrition_prompt recipe_text) = LlmContent content
       \<and> json_loads (strip_fences content) = None)
    \<longrightarrow>
    fst (get_nutritional_info w recipe_text) =
      py ''{\"calories\": 0, \"protein_grams\": 0, \"fat_grams\": 0, \"carbs_grams\": 0, \"summary\": \"Nutritional info unavailable.\"}''
    \<and> json_loads (fst (get_nutritional_info w recipe_text)) =
        Some
         (JObject
           [(py ''calories'', JInt 0),
            (py ''protein_grams'', JInt 0),
            (py ''fat_grams'', JInt 0),
            (py ''carbs_grams'', JInt 0),
            (py ''summary'', JString (py ''Nutritional info unavailable.''))])
    \<and> snd (get_nutritional_info w recipe_text) = [StError (py ''Error generating nutritional info: '')])
   \<and> (llm w (nutrition_prompt recipe_text) = llm w (nutrition_prompt other_text) \<longrightarrow>
        get_nutritional_info w recipe_text = get_nutritional_info w other_text)"
proof (intro conjI impI)
  assume "llm w (nutrition_prompt recipe_text) = LlmRaises \<or>
    (\<exists>content. llm w (nutrition_prompt recipe_text) = LlmContent content
       \<and> json_loads (strip_fences content) = None)"
  then have e: "get_nutritional_info w recipe_text =
     (py ''{\"calories\": 0, \"protein_grams\": 0, \"fat_grams\": 0, \"carbs_grams\": 0, \"summary\": \"Nutritional info unavailable.\"}'',
      [StError (py ''Error generating nutritional info: '')])"
    by (rule get_nutritional_info_failure)
  show "fst (get_nutritional_info w recipe_text) =
      py ''{\"calories\": 0, \"protein_grams\": 0, \"fat_grams\": 0, \"carbs_grams\": 0, \"summary\": \"Nutritional info unavailable.\"}''"
    by (simp add: e)
  show "json_loads (fst (get_nutritional_info w recipe_text)) =
        Some
         (JObject
           [(py ''calories'', JInt 0),
            (py ''protein_grams'', JInt 0),
            (py ''fat_grams'', JInt 0),
            (py ''carbs_grams'', JInt 0),
            (py ''summary'', JString (py ''Nutritional info unavailable.''))])"
    using loads_nutrition_unavailable by (simp add: e nutrition_unavailable_def)
  show "snd (get_nutritional_info w recipe_text) = [StError (py ''Error generating nutritional info: '')]"
    by (simp add: e)
next
  assume "llm w (nutrition_prompt recipe_text) = llm w (nutrition_prompt other_text)"
  then show "get_nutritional_info w recipe_text = get_nutritional_info w other_text"
    by (simp add: get_nutritional_info_def invoke_json_def)
qed

theorem get_nutritional_info_sentinel_on_failure_witness:
  "llm offline_world (nutrition_prompt (json_dumps (float_repr offline_world) failed_recipe)) = LlmRaises
   \<and> fst (get_nutritional_info offline_world (json_dumps (float_repr offline_world) failed_recipe)) =
      py ''{\"calories\": 0, \"protein_grams\": 0, \"fat_grams\": 0, \"carbs_grams\": 0, \"summary\": \"Nutritional info unavailable.\"}''
   \<and> llm offline_world (nutrition_prompt (json_dumps (float_repr offline_world) failed_recipe))
       = llm offline_world (nutrition_prompt (py ''{\"title\": \"Soup\"}''))
   \<and> get_nutritional_info offline_world (json_dumps (float_repr offline_world) failed_recipe)
       = get_nutritional_info offline_world (py ''{\"title\": \"Soup\"}'')"
proof -
  have a: "llm offline_world (nutrition_prompt (json_dumps (float_repr offline_world) failed_recipe)) = LlmRaises"
    by (simp add: offline_world_def)
  have b: "llm offline_world (nutrition_prompt (json_dumps (float_repr offline_world) failed_recipe))
       = llm offline_world (nutrition_prompt (py ''{\"title\": \"Soup\"}''))"
    by (simp add: offline_world_def)
  show ?thesis
    using a b
      get_nutritional_info_sentinel_on_failure
        [of offline_world "json_dumps (float_repr offline_world) failed_recipe" "py ''{\"title\": \"Soup\"}''"]
    by blast
qed

section \<open>The image search\<close>


lemma photo_json: "json_loads (py ''{\"photos\": [{\"src\": {\"original\": \"https://example.org/soup.jpg\"}}]}'')
  = Some (JObject [(py ''photos'', JArray [JObject [(py ''src'', JObject [(py ''original'', JString (py ''https://example.org/soup.jpg''))])]])])"
  by (simp add: json_eval)


lemma keyed_world_simps:
  "PEXELS_API_KEY (keyed_world answer) = Some (py ''key'')"
  "http_get (keyed_world answer) req = answer"
  "py ''key'' \<noteq> []"
  "decode_body (keyed_world answer) content = content"
  by (simp_all add: keyed_world_def offline_world_def py_def)

text \<open>
  The tool wrapper passes a string on to the function and refuses every other value
  before the function is entered.
\<close>

lemma generate_recipe_image_run_checks_type:
  "generate_recipe_image_run w (JString keywords) = Inr (generate_recipe_image w keywords)"
  "generate_recipe_image_run w JNull = Inl ValidationError"
  "generate_recipe_image_run w (JBool b) = Inl ValidationError"
  "generate_recipe_image_run w (JInt i) = Inl ValidationError"
  "generate_recipe_image_run w (JFloat lit) = Inl ValidationError"
  "generate_recipe_image_run w (JArray xs) = Inl ValidationError"
  "generate_recipe_image_run w (JObject d) = Inl ValidationError"
  by (simp_all add: generate_recipe_image_run_def)

text \<open>
  A body that begins with a byte order mark, in a response that declares no encoding:
  \<open>response.json()\<close> drops the mark and the photo is returned.
\<close>

lemma marked_body_returns_photo:
  "fst (generate_recipe_image
         ((keyed_world (Response 200
             (Some ([239, 187, 191]
                @ py ''{\"photos\": [{\"src\": {\"original\": \"https://example.org/soup.jpg\"}}]}''))))
          \<lparr>decode_body := drop_mark\<rparr>)
         (py ''soup''))
     = JString (py ''https://example.org/soup.jpg'')"
  by (simp add: generate_recipe_image_def search_outcome_def raise_for_status_def photo_json
      first_original_def list_index_def keyed_world_def drop_mark_def startswith_def)
    (simp add: py_def)




section \<open>Rendering the PDF\<close>

lemma title_block_failed_recipe:
  "title_block failed_recipe =
     Inr [SetFont font_name (py ''B'') 22,
          MultiCell 0 12 [Lit (py ''Failed to generate recipe'')] (py ''C''),
          Ln 4,
          SetFont font_name (py ''I'') 12,
          MultiCell 0 8 [Lit [34], Val (JString (py ''Please try again.'')), Lit [34]] (py ''C''),
          Ln 8]"
  by (simp add: title_block_def failed_recipe_def py_def)

lemma image_block_request_raises:
  "http_get w (image_request url) = RequestRaises \<Longrightarrow>
   image_block w url fs = (Inl RequestException, fs)"
  by (simp add: image_block_def remove_staged_def)

lemma image_block_other_status:
  "http_get w (image_request url) = Response status body \<Longrightarrow> status \<noteq> 200 \<Longrightarrow>
   image_block w url fs = (Inr [], fs)"
  by (simp add: image_block_def remove_staged_def)

lemma image_block_staged:
  "http_get w (image_request url) = Response 200 (Some content) \<Longrightarrow> \<not> write_fails w \<Longrightarrow>
   tmp_name w \<noteq> [] \<Longrightarrow> fs (tmp_name w) = None \<Longrightarrow>
   image_block w url fs =
     (if image_decodes w content then Inr [Image (tmp_name w) content 30 150, Ln 10]
      else Inl FPDFException, fs)"
  by (auto simp: image_block_def remove_staged_def Let_def)

lemma image_block_unread_body:
  "http_get w (image_request url) = Response 200 None \<Longrightarrow>
   image_block w url fs = (Inl RequestException, fs(tmp_name w \<mapsto> []))"
  by (simp add: image_block_def remove_staged_def)

lemma nutrition_block_unavailable:
  "nutrition_block nutrition_unavailable =
          Inr [SetFont font_name (py ''B'') 14,
               Cell 0 10 [Lit (py ''Nutritional Information (per serving)'')] 0 1 (py ''C''),
               SetFont font_name [] 12,
               MultiCell 0 8 [Lit (py ''Summary: ''), Val (JString (py ''Nutritional info unavailable.''))] (py ''C''),
               Ln 4,
               MultiCell 0 8
                 [Lit (py ''Calories: ''), Val (JInt 0),
                  Lit (py ''   Protein: ''), Val (JInt 0),
                  Lit (py ''g   Fat: ''), Val (JInt 0),
                  Lit (py ''g   Carbs: ''), Val (JInt 0), Lit (py ''g'')]
                 (py ''C''),
               Ln 10]"
  by (simp add: nutrition_block_def nutrition_unavailable_def py_def)

lemma ingredients_block_failed_recipe:
  "ingredients_block failed_recipe =
     Inr [SetFont font_name (py ''B'') 14,
          Cell 0 10 [Lit (py ''Ingredients'')] 0 1 [],
          SetFont font_name [] 12,
          Ln 8]"
  by (simp add: ingredients_block_def failed_recipe_def py_def)

lemma instructions_block_failed_recipe:
  "instructions_block failed_recipe =
     Inr [SetFont font_name (py ''B'') 14,
          Cell 0 10 [Lit (py ''Instructions'')] 0 1 [],
          SetFont font_name [] 12]"
  by (simp add: instructions_block_def failed_recipe_def py_def)

text \<open>
  Claim C3 at a failing input. The image request raises (a time-out or a transport
  error). The \<open>try\<close> around it has a \<open>finally\<close> clause and no \<open>except\<close>, so the exception
  leaves \<open>create_recipe_pdf\<close>: no document is produced, although the sentinel recipe and
  the sentinel nutrition record render without the image.
\<close>

theorem fetch_timeout_aborts_rendering:
  "http_get offline_world (image_request (JString fallback_image)) = RequestRaises
   \<and> create_recipe_pdf offline_world failed_recipe nutrition_unavailable (JString fallback_image)
       Map.empty = (Inl RequestException, Map.empty)"
proof -
  have a: "http_get offline_world (image_request (JString fallback_image)) = RequestRaises"
    by (simp add: offline_world_def)
  have b: "fonts_found offline_world"
    by (simp add: offline_world_def)
  show ?thesis
    using a b
    by (simp add: create_recipe_pdf_def title_block_failed_recipe image_block_request_raises)
qed

text \<open>
  Claim C8 at a failing input. The image request answers with status 200 and reading the
  streamed body raises. \<open>NamedTemporaryFile\<close> has created the file by then, but
  \<open>image_path\<close> is assigned only after the write, so the \<open>finally\<close> clause removes
  nothing: the exception leaves \<open>create_recipe_pdf\<close> and the temporary file stays on disk.
\<close>

theorem unread_body_leaves_temp_file:
  "http_get (keyed_world (Response 200 None)) (image_request (JString fallback_image))
     = Response 200 None
   \<and> fst (create_recipe_pdf (keyed_world (Response 200 None)) failed_recipe nutrition_unavailable
         (JString fallback_image) Map.empty) = Inl RequestException
   \<and> snd (create_recipe_pdf (keyed_world (Response 200 None)) failed_recipe nutrition_unavailable
         (JString fallback_image) Map.empty) (tmp_name (keyed_world (Response 200 None)))
       = Some []"
proof -
  have a: "http_get (keyed_world (Response 200 None)) (image_request (JString fallback_image))
     = Response 200 None"
    by (simp add: keyed_world_def)
  have b: "fonts_found (keyed_world (Response 200 None))"
    by (simp add: keyed_world_def offline_world_def)
  show ?thesis
    using a b
    by (simp add: create_recipe_pdf_def title_block_failed_recipe image_block_unread_body)
qed

lemma create_recipe_pdf_blocks:
  "fonts_found w \<Longrightarrow> title_block recipe = Inr t \<Longrightarrow> image_block w url fs = (Inr im, fs') \<Longrightarrow>
   nutrition_block nutrition = Inr n \<Longrightarrow> ingredients_block recipe = Inr g \<Longrightarrow>
   instructions_block recipe = Inr i \<Longrightarrow>
   create_recipe_pdf w recipe nutrition url fs =
     (if output_fails w (add_fonts @ [AddPage] @ t @ im @ n @ g @ i) then Inl IndexError
      else Inr (add_fonts @ [AddPage] @ t @ im @ n @ g @ i), fs')"
  by (simp add: create_recipe_pdf_def Let_def)

lemma create_recipe_pdf_files:
  "snd (create_recipe_pdf w recipe nutrition url fs) = fs
   \<or> snd (create_recipe_pdf w recipe nutrition url fs) = snd (image_block w url fs)"
  by (auto simp: create_recipe_pdf_def Let_def split: sum.splits prod.splits)

lemma keyed_world_pdf:
  "fonts_found (keyed_world answer)"
  "\<not> write_fails (keyed_world answer)"
  "image_decodes (keyed_world answer) content"
  "tmp_name (keyed_world answer) \<noteq> []"
  "\<not> output_fails (keyed_world answer) ops"
  by (simp_all add: keyed_world_def offline_world_def py_def)

text \<open>
  When rendering is not stopped by an exception, the image block is the only part that
  depends on the fetch. A response with a status other than 200 leaves the image out and
  the other blocks are produced in order; a response with status 200 whose bytes are
  written and decoded puts the image, 150 wide at x = 30, between the description and the
  nutrition block, and the disk is as before.
\<close>

theorem create_recipe_pdf_image_or_not:
  "fonts_found w \<and> title_block recipe = Inr t \<and> nutrition_block nutrition = Inr n
   \<and> ingredients_block recipe = Inr g \<and> instructions_block recipe = Inr i
   \<longrightarrow>
   (http_get w (image_request url) = Response status body \<and> status \<noteq> 200
      \<and> \<not> output_fails w (add_fonts @ [AddPage] @ t @ n @ g @ i) \<longrightarrow>
      create_recipe_pdf w recipe nutrition url fs
        = (Inr (add_fonts @ [AddPage] @ t @ n @ g @ i), fs))
   \<and> (http_get w (image_request url) = Response 200 (Some content) \<and> \<not> write_fails w
        \<and> image_decodes w content \<and> tmp_name w \<noteq> [] \<and> fs (tmp_name w) = None
        \<and> \<not> output_fails w
            (add_fonts @ [AddPage] @ t @ [Image (tmp_name w) content 30 150, Ln 10] @ n @ g @ i)
      \<longrightarrow>
      create_recipe_pdf w recipe nutrition url fs
        = (Inr (add_fonts @ [AddPage] @ t @ [Image (tmp_name w) content 30 150, Ln 10] @ n @ g @ i),
           fs))"
proof (intro impI conjI)
  assume a: "fonts_found w \<and> title_block recipe = Inr t \<and> nutrition_block nutrition = Inr n
   \<and> ingredients_block recipe = Inr g \<and> instructions_block recipe = Inr i"
  {
    assume b: "http_get w (image_request url) = Response status body \<and> status \<noteq> 200
      \<and> \<not> output_fails w (add_fonts @ [AddPage] @ t @ n @ g @ i)"
    then have "image_block w url fs = (Inr [], fs)"
      by (simp add: image_block_other_status)
    then show "create_recipe_pdf w recipe nutrition url fs
        = (Inr (add_fonts @ [AddPage] @ t @ n @ g @ i), fs)"
      using a b create_recipe_pdf_blocks [of w recipe t url fs "[]" fs nutrition n g i] by simp
  }
  {
    assume b: "http_get w (image_request url) = Response 200 (Some content) \<and> \<not> write_fails w
        \<and> image_decodes w content \<and> tmp_name w \<noteq> [] \<and> fs (tmp_name w) = None
        \<and> \<not> output_fails w
            (add_fonts @ [AddPage] @ t @ [Image (tmp_name w) content 30 150, Ln 10] @ n @ g @ i)"
    then have "image_block w url fs = (Inr [Image (tmp_name w) content 30 150, Ln 10], fs)"
      by (simp add: image_block_staged)
    then show "create_recipe_pdf w recipe nutrition url fs
        = (Inr (add_fonts @ [AddPage] @ t @ [Image (tmp_name w) content 30 150, Ln 10] @ n @ g @ i),
           fs)"
      using a b create_recipe_pdf_blocks
        [of w recipe t url fs "[Image (tmp_name w) content 30 150, Ln 10]" fs nutrition n g i]
      by simp
  }
qed

theorem create_recipe_pdf_image_or_not_witness:
  "\<exists>t n g i.
     title_block failed_recipe = Inr t \<and> nutrition_block nutrition_unavailable = Inr n
     \<and> ingredients_block failed_recipe = Inr g \<and> instructions_block failed_recipe = Inr i
     \<and> create_recipe_pdf (keyed_world (Response 404 None)) failed_recipe nutrition_unavailable
         (JString fallback_image) Map.empty
       = (Inr (add_fonts @ [AddPage] @ t @ n @ g @ i), Map.empty)
     \<and> create_recipe_pdf (keyed_world (Response 200 (Some [255, 216, 255]))) failed_recipe
         nutrition_unavailable (JString fallback_image) Map.empty
       = (Inr (add_fonts @ [AddPage] @ t
               @ [Image (tmp_name (keyed_world (Response 200 (Some [255, 216, 255]))))
                    [255, 216, 255] 30 150, Ln 10]
               @ n @ g @ i),
          Map.empty)"
proof -
  obtain t n g i where b:
    "title_block failed_recipe = Inr t" "nutrition_block nutrition_unavailable = Inr n"
    "ingredients_block failed_recipe = Inr g" "instructions_block failed_recipe = Inr i"
    using title_block_failed_recipe nutrition_block_unavailable ingredients_block_failed_recipe
      instructions_block_failed_recipe
    by blast
  have s: "(404::nat) \<noteq> 200"
    by simp
  have r1: "create_recipe_pdf (keyed_world (Response 404 None)) failed_recipe nutrition_unavailable
         (JString fallback_image) Map.empty
       = (Inr (add_fonts @ [AddPage] @ t @ n @ g @ i), Map.empty)"
    using b s keyed_world_pdf(1) [of "Response 404 None"]
      keyed_world_pdf(5) [of "Response 404 None" "add_fonts @ [AddPage] @ t @ n @ g @ i"]
      keyed_world_simps(2) [of "Response 404 None" "image_request (JString fallback_image)"]
      create_recipe_pdf_image_or_not
        [where w = "keyed_world (Response 404 None)" and recipe = failed_recipe and t = t
          and nutrition = nutrition_unavailable and n = n and g = g and i = i
          and url = "JString fallback_image" and status = 404 and body = None
          and fs = Map.empty]
    by blast
  have r2: "create_recipe_pdf (keyed_world (Response 200 (Some [255, 216, 255]))) failed_recipe
         nutrition_unavailable (JString fallback_image) Map.empty
       = (Inr (add_fonts @ [AddPage] @ t
               @ [Image (tmp_name (keyed_world (Response 200 (Some [255, 216, 255]))))
                    [255, 216, 255] 30 150, Ln 10]
               @ n @ g @ i),
          Map.empty)"
    using b keyed_world_pdf(1,2,4) [of "Response 200 (Some [255, 216, 255])"]
      keyed_world_pdf(3) [of "Response 200 (Some [255, 216, 255])" "[255, 216, 255]"]
      keyed_world_pdf(5)
        [of "Response 200 (Some [255, 216, 255])"
          "add_fonts @ [AddPage] @ t
           @ [Image (tmp_name (keyed_world (Response 200 (Some [255, 216, 255]))))
                [255, 216, 255] 30 150, Ln 10]
           @ n @ g @ i"]
      keyed_world_simps(2)
        [of "Response 200 (Some [255, 216, 255])" "image_request (JString fallback_image)"]
      create_recipe_pdf_image_or_not
        [where w = "keyed_world (Response 200 (Some [255, 216, 255]))" and recipe = failed_recipe
          and t = t and nutrition = nutrition_unavailable and n = n and g = g and i = i
          and url = "JString fallback_image" and fs = Map.empty and content = "[255, 216, 255]"]
    by blast
  show ?thesis
    using b r1 r2 by blast
qed

text \<open>
  A document that FPDF cannot serialise is lost at the last call, after every block was
  added: the exception of \<open>pdf.output\<close> leaves \<open>create_recipe_pdf\<close>.
\<close>

lemma output_failure_aborts_rendering:
  "fonts_found w \<Longrightarrow> title_block recipe = Inr t \<Longrightarrow> image_block w url fs = (Inr im, fs') \<Longrightarrow>
   nutrition_block nutrition = Inr n \<Longrightarrow> ingredients_block recipe = Inr g \<Longrightarrow>
   instructions_block recipe = Inr i \<Longrightarrow>
   output_fails w (add_fonts @ [AddPage] @ t @ im @ n @ g @ i) \<Longrightarrow>
   create_recipe_pdf w recipe nutrition url fs = (Inl IndexError, fs')"
  by (simp add: create_recipe_pdf_blocks)

text \<open>
  Once the fetched bytes are written to the temporary file, the file is removed before
  \<open>create_recipe_pdf\<close> returns or raises, whether FPDF decodes the image or not and
  whatever the later blocks do.
\<close>

theorem staged_file_removed:
  "http_get w (image_request url) = Response 200 (Some content) \<and> \<not> write_fails w
   \<and> tmp_name w \<noteq> [] \<and> fs (tmp_name w) = None
   \<longrightarrow> snd (create_recipe_pdf w recipe nutrition url fs) = fs"
proof
  assume a: "http_get w (image_request url) = Response 200 (Some content) \<and> \<not> write_fails w
   \<and> tmp_name w \<noteq> [] \<and> fs (tmp_name w) = None"
  then have "snd (image_block w url fs) = fs"
    by (simp add: image_block_staged)
  then show "snd (create_recipe_pdf w recipe nutrition url fs) = fs"
    using create_recipe_pdf_files [of w recipe nutrition url fs] by auto
qed

theorem staged_file_removed_witness:
  "http_get ((keyed_world (Response 200 (Some [1, 2, 3])))\<lparr>image_decodes := \<lambda>content. False\<rparr>)
     (image_request (JString fallback_image)) = Response 200 (Some [1, 2, 3])
   \<and> fst (create_recipe_pdf
         ((keyed_world (Response 200 (Some [1, 2, 3])))\<lparr>image_decodes := \<lambda>content. False\<rparr>)
         failed_recipe nutrition_unavailable (JString fallback_image) Map.empty)
       = Inl FPDFException
   \<and> snd (create_recipe_pdf
         ((keyed_world (Response 200 (Some [1, 2, 3])))\<lparr>image_decodes := \<lambda>content. False\<rparr>)
         failed_recipe nutrition_unavailable (JString fallback_image) Map.empty)
       = Map.empty"
proof -
  let ?w = "(keyed_world (Response 200 (Some [1, 2, 3])))\<lparr>image_decodes := \<lambda>content. False\<rparr>"
  have h: "http_get ?w (image_request (JString fallback_image)) = Response 200 (Some [1, 2, 3])"
    "\<not> write_fails ?w" "tmp_name ?w \<noteq> []" "fonts_found ?w"
    "\<not> image_decodes ?w [1, 2, 3]" "Map.empty (tmp_name ?w) = None"
    by (simp_all add: keyed_world_def offline_world_def py_def)
  have "image_block ?w (JString fallback_image) Map.empty = (Inl FPDFException, Map.empty)"
    using h by (simp add: image_block_staged)
  then have a: "fst (create_recipe_pdf ?w failed_recipe nutrition_unavailable (JString fallback_image)
      Map.empty) = Inl FPDFException"
    using h(4) by (simp add: create_recipe_pdf_def title_block_failed_recipe)
  have b: "snd (create_recipe_pdf ?w failed_recipe nutrition_unavailable (JString fallback_image)
      Map.empty) = Map.empty"
    using h staged_file_removed
      [where w = ?w and url = "JString fallback_image" and content = "[1, 2, 3]"
        and fs = Map.empty and recipe = failed_recipe and nutrition = nutrition_unavailable]
    by blast
  show ?thesis
    using h(1) a b by blast
qed

section \<open>The generate button\<close>

lemma generate_button_no_ingredients:
  "fst (generate_button w [] dietary_needs st) = st"
  by (simp add: generate_button_def)

lemma generate_button_complete:
  "ingredients \<noteq> [] \<Longrightarrow>
   json_loads (fst (create_recipe w ingredients dietary_needs)) = Some recipe \<Longrightarrow>
   getitem_key recipe (py ''image_keywords'') = Inr (JString keywords) \<Longrightarrow>
   json_loads (fst (get_nutritional_info w (json_dumps (float_repr w) recipe))) = Some nutrition \<Longrightarrow>
   fst (generate_button w ingredients dietary_needs st) =
     \<lparr>recipe_data = recipe, nutrition_data = nutrition,
      image_url = fst (generate_recipe_image w keywords)\<rparr>"
  by (cases st)
    (auto simp: generate_button_def generate_recipe_image_run_def Let_def split: prod.splits)

lemma generate_button_partial:
  "ingredients \<noteq> [] \<Longrightarrow>
   json_loads (fst (create_recipe w ingredients dietary_needs)) = Some recipe \<Longrightarrow>
   getitem_key recipe (py ''image_keywords'') = Inl e \<Longrightarrow>
   fst (generate_button w ingredients dietary_needs st) = st\<lparr>recipe_data := recipe\<rparr>"
  by (auto simp: generate_button_def Let_def split: prod.splits)

lemma generate_button_refused:
  "ingredients \<noteq> [] \<Longrightarrow>
   json_loads (fst (create_recipe w ingredients dietary_needs)) = Some recipe \<Longrightarrow>
   getitem_key recipe (py ''image_keywords'') = Inr v \<Longrightarrow>
   generate_recipe_image_run w v = Inl e \<Longrightarrow>
   fst (generate_button w ingredients dietary_needs st) = st\<lparr>recipe_data := recipe\<rparr>"
  by (auto simp: generate_button_def Let_def split: prod.splits)

lemma chef_world_recipe:
  "llm (chef_world recipe_answer nutrition_answer) (recipe_prompt ingredients dietary_needs)
     = LlmContent recipe_answer"
proof -
  have "\<exists>ps ss. recipe_prompt ingredients dietary_needs = ps @ py ''You are a creative chef.'' @ ss"
    unfolding recipe_prompt_def
    by (rule exI [of _ "py ''\<newline>    ''"]) (simp add: py_def)
  then have "py_in (py ''You are a creative chef.'') (recipe_prompt ingredients dietary_needs)"
    using py_in_iff by blast
  then show ?thesis
    by (simp add: chef_world_def)
qed

lemma soup_steps:
  "strip_fences (py ''{\"title\": \"Soup\", \"image_keywords\": \"soup\"}'')
     = py ''{\"title\": \"Soup\", \"image_keywords\": \"soup\"}''"
  "json_loads (py ''{\"title\": \"Soup\", \"image_keywords\": \"soup\"}'')
     = Some (JObject [(py ''title'', JString (py ''Soup'')), (py ''image_keywords'', JString (py ''soup''))])"
  "strip_fences (py ''{\"calories\": 120}'') = py ''{\"calories\": 120}''"
  "json_loads (py ''{\"calories\": 120}'') = Some (JObject [(py ''calories'', JInt 120)])"
  "strip_fences (py ''{\"title\": \"Stew\"}'') = py ''{\"title\": \"Stew\"}''"
  "json_loads (py ''{\"title\": \"Stew\"}'') = Some (JObject [(py ''title'', JString (py ''Stew''))])"
  by (simp_all add: fence_eval json_eval)

lemma soup_nutrition_prompt:
  "llm (chef_world a (py ''{\"calories\": 120}''))
     (nutrition_prompt (json_dumps frepr
        (JObject [(py ''title'', JString (py ''Soup'')), (py ''image_keywords'', JString (py ''soup''))])))
   = LlmContent (py ''{\"calories\": 120}'')"
  by (simp add: chef_world_def nutrition_prompt_def dumps_eval startswith_def)

lemma soup_run:
  "py ''beans'' \<noteq> []"
  "json_loads (fst (create_recipe
       (chef_world (py ''{\"title\": \"Soup\", \"image_keywords\": \"soup\"}'') (py ''{\"calories\": 120}''))
       (py ''beans'') (py ''None'')))
     = Some (JObject [(py ''title'', JString (py ''Soup'')), (py ''image_keywords'', JString (py ''soup''))])"
  "getitem_key
     (JObject [(py ''title'', JString (py ''Soup'')), (py ''image_keywords'', JString (py ''soup''))])
     (py ''image_keywords'') = Inr (JString (py ''soup''))"
  "json_loads (fst (get_nutritional_info
       (chef_world (py ''{\"title\": \"Soup\", \"image_keywords\": \"soup\"}'') (py ''{\"calories\": 120}''))
       (json_dumps
          (float_repr
             (chef_world (py ''{\"title\": \"Soup\", \"image_keywords\": \"soup\"}'') (py ''{\"calories\": 120}'')))
          (JObject [(py ''title'', JString (py ''Soup'')), (py ''image_keywords'', JString (py ''soup''))]))))
     = Some (JObject [(py ''calories'', JInt 120)])"
  "fst (generate_recipe_image
       (chef_world (py ''{\"title\": \"Soup\", \"image_keywords\": \"soup\"}'') (py ''{\"calories\": 120}''))
       (py ''soup'')) = JString fallback_image"
proof -
  show "py ''beans'' \<noteq> []"
    by (simp add: py_def)
  show "json_loads (fst (create_recipe
       (chef_world (py ''{\"title\": \"Soup\", \"image_keywords\": \"soup\"}'') (py ''{\"calories\": 120}''))
       (py ''beans'') (py ''None'')))
     = Some (JObject [(py ''title'', JString (py ''Soup'')), (py ''image_keywords'', JString (py ''soup''))])"
    by (simp add: create_recipe_def invoke_json_def chef_world_recipe soup_steps)
  show "getitem_key
     (JObject [(py ''title'', JString (py ''Soup'')), (py ''image_keywords'', JString (py ''soup''))])
     (py ''image_keywords'') = Inr (JString (py ''soup''))"
    by (simp add: py_def)
  show "json_loads (fst (get_nutritional_info
       (chef_world (py ''{\"title\": \"Soup\", \"image_keywords\": \"soup\"}'') (py ''{\"calories\": 120}''))
       (json_dumps
          (float_repr
             (chef_world (py ''{\"title\": \"Soup\", \"image_keywords\": \"soup\"}'') (py ''{\"calories\": 120}'')))
          (JObject [(py ''title'', JString (py ''Soup'')), (py ''image_keywords'', JString (py ''soup''))]))))
     = Some (JObject [(py ''calories'', JInt 120)])"
    unfolding get_nutritional_info_def invoke_json_def soup_nutrition_prompt
    by (simp add: soup_steps)
  show "fst (generate_recipe_image
       (chef_world (py ''{\"title\": \"Soup\", \"image_keywords\": \"soup\"}'') (py ''{\"calories\": 120}''))
       (py ''soup'')) = JString fallback_image"
    by (simp add: generate_recipe_image_def chef_world_def offline_world_def)
qed

lemma stew_run:
  "json_loads (fst (create_recipe (chef_world (py ''{\"title\": \"Stew\"}'') (py ''{\"calories\": 450}''))
       (py ''beans'') (py ''None'')))
     = Some (JObject [(py ''title'', JString (py ''Stew''))])"
  "getitem_key (JObject [(py ''title'', JString (py ''Stew''))]) (py ''image_keywords'') = Inl KeyError"
  by (simp_all add: create_recipe_def invoke_json_def chef_world_recipe soup_steps) (simp add: py_def)

text \<open>
  A recipe whose \<open>image_keywords\<close> is a list: the image tool refuses the value, and the run
  stops with the recipe stored and nothing else.
\<close>

lemma refused_keywords_stop_run:
  "fst (generate_button
          (chef_world (py ''{\"title\": \"Stew\", \"image_keywords\": [\"stew\", \"bowl\"]}'')
             (py ''{\"calories\": 450}''))
          (py ''beans'') (py ''None'') empty_session)
     = \<lparr>recipe_data =
          JObject [(py ''title'', JString (py ''Stew'')),
                   (py ''image_keywords'', JArray [JString (py ''stew''), JString (py ''bowl'')])],
        nutrition_data = JNull,
        image_url = JNull\<rparr>"
proof -
  let ?text = "py ''{\"title\": \"Stew\", \"image_keywords\": [\"stew\", \"bowl\"]}''"
  let ?w = "chef_world ?text (py ''{\"calories\": 450}'')"
  let ?kw = "JArray [JString (py ''stew''), JString (py ''bowl'')]"
  let ?recipe = "JObject [(py ''title'', JString (py ''Stew'')), (py ''image_keywords'', ?kw)]"
  have a: "strip_fences ?text = ?text" "json_loads ?text = Some ?recipe"
    by (simp_all add: fence_eval json_eval)
  have b: "json_loads (fst (create_recipe ?w (py ''beans'') (py ''None''))) = Some ?recipe"
    by (simp add: create_recipe_def invoke_json_def chef_world_recipe a)
  have c: "getitem_key ?recipe (py ''image_keywords'') = Inr ?kw"
    by (simp add: py_def)
  have d: "generate_recipe_image_run ?w ?kw = Inl ValidationError"
    by (simp add: generate_recipe_image_run_def)
  show ?thesis
    using generate_button_refused [OF soup_run(1) b c d, of empty_session]
    by (simp add: empty_session_def)
qed

text \<open>
  Claim C5 at a failing input. A first run (ingredients \<open>beans\<close>) completes and fills the
  three slots. In a second run the model answers \<open>{"title": "Stew"}\<close>, which
  \<open>create_recipe\<close> returns as it is; the recipe is stored, reading its \<open>image_keywords\<close>
  raises \<open>KeyError\<close>, and the run ends there. The session then holds the recipe of the
  second run with the nutrition record and the image of the first: the slots were
  neither all overwritten nor all left unchanged.
\<close>

theorem partial_run_mixes_results:
  "fst (generate_button
          (chef_world (py ''{\"title\": \"Soup\", \"image_keywords\": \"soup\"}'') (py ''{\"calories\": 120}''))
          (py ''beans'') (py ''None'') empty_session)
     = \<lparr>recipe_data =
          JObject [(py ''title'', JString (py ''Soup'')), (py ''image_keywords'', JString (py ''soup''))],
        nutrition_data = JObject [(py ''calories'', JInt 120)],
        image_url = JString fallback_image\<rparr>
   \<and> fst (generate_button
          (chef_world (py ''{\"title\": \"Stew\"}'') (py ''{\"calories\": 450}''))
          (py ''beans'') (py ''None'')
          \<lparr>recipe_data =
             JObject [(py ''title'', JString (py ''Soup'')), (py ''image_keywords'', JString (py ''soup''))],
           nutrition_data = JObject [(py ''calories'', JInt 120)],
           image_url = JString fallback_image\<rparr>)
     = \<lparr>recipe_data = JObject [(py ''title'', JString (py ''Stew''))],
        nutrition_data = JObject [(py ''calories'', JInt 120)],
        image_url = JString fallback_image\<rparr>"
  using generate_button_complete [OF soup_run(1,2,3,4), of empty_session]
    generate_button_partial [OF soup_run(1) stew_run]
  by (simp add: soup_run(5))

text \<open>
  What a run does to the slots, for every world and every session. A request without
  ingredients changes no slot. Otherwise the recipe text returned by \<open>create_recipe\<close>
  always parses and \<open>recipe_data\<close> is overwritten with it. If the recipe has a string as
  \<open>image_keywords\<close>, the run completes: \<open>image_url\<close> is the result of the image search for
  them and \<open>nutrition_data\<close> the parsed answer of \<open>get_nutritional_info\<close> for this recipe. If
  reading \<open>image_keywords\<close> raises, or the value read is not a string and the image tool
  refuses it, the run stops with \<open>image_url\<close> and \<open>nutrition_data\<close> at their previous
  values.
\<close>

theorem generate_button_slots:
  "fst (generate_button w [] dietary_needs st) = st
   \<and> (ingredients \<noteq> [] \<longrightarrow>
       (\<exists>recipe.
          json_loads (fst (create_recipe w ingredients dietary_needs)) = Some recipe
          \<and> recipe_data (fst (generate_button w ingredients dietary_needs st)) = recipe
          \<and> (\<forall>keywords. getitem_key recipe (py ''image_keywords'') = Inr (JString keywords) \<longrightarrow>
                image_url (fst (generate_button w ingredients dietary_needs st))
                  = fst (generate_recipe_image w keywords)
                \<and> json_loads (fst (get_nutritional_info w (json_dumps (float_repr w) recipe)))
                  = Some (nutrition_data (fst (generate_button w ingredients dietary_needs st))))
          \<and> ((\<forall>keywords. getitem_key recipe (py ''image_keywords'') \<noteq> Inr (JString keywords)) \<longrightarrow>
                image_url (fst (generate_button w ingredients dietary_needs st)) = image_url st
                \<and> nutrition_data (fst (generate_button w ingredients dietary_needs st))
                  = nutrition_data st)))"
proof (intro conjI impI)
  show "fst (generate_button w [] dietary_needs st) = st"
    by (rule generate_button_no_ingredients)
next
  assume ne: "ingredients \<noteq> []"
  obtain recipe where r: "json_loads (fst (create_recipe w ingredients dietary_needs)) = Some recipe"
    using create_recipe_parses by blast
  obtain nutrition where
    n: "json_loads (fst (get_nutritional_info w (json_dumps (float_repr w) recipe))) = Some nutrition"
    using get_nutritional_info_parses by blast
  have stopped: "fst (generate_button w ingredients dietary_needs st) = st\<lparr>recipe_data := recipe\<rparr>"
    if h: "\<forall>kw. getitem_key recipe (py ''image_keywords'') \<noteq> Inr (JString kw)"
  proof (cases "getitem_key recipe (py ''image_keywords'')")
    case (Inl e)
    then show ?thesis
      using ne r by (simp add: generate_button_partial)
  next
    case (Inr v)
    then have "\<forall>kw. v \<noteq> JString kw"
      using h by simp
    then have "generate_recipe_image_run w v = Inl ValidationError"
      by (cases v) (simp_all add: generate_recipe_image_run_def)
    then show ?thesis
      using ne r Inr by (simp add: generate_button_refused)
  qed
  show "\<exists>recipe.
          json_loads (fst (create_recipe w ingredients dietary_needs)) = Some recipe
          \<and> recipe_data (fst (generate_button w ingredients dietary_needs st)) = recipe
          \<and> (\<forall>keywords. getitem_key recipe (py ''image_keywords'') = Inr (JString keywords) \<longrightarrow>
                image_url (fst (generate_button w ingredients dietary_needs st))
                  = fst (generate_recipe_image w keywords)
                \<and> json_loads (fst (get_nutritional_info w (json_dumps (float_repr w) recipe)))
                  = Some (nutrition_data (fst (generate_button w ingredients dietary_needs st))))
          \<and> ((\<forall>keywords. getitem_key recipe (py ''image_keywords'') \<noteq> Inr (JString keywords)) \<longrightarrow>
                image_url (fst (generate_button w ingredients dietary_needs st)) = image_url st
                \<and> nutrition_data (fst (generate_button w ingredients dietary_needs st))
                  = nutrition_data st)"
  proof (rule exI [of _ recipe], intro conjI allI impI)
    show "json_loads (fst (create_recipe w ingredients dietary_needs)) = Some recipe"
      by (rule r)
    show "recipe_data (fst (generate_button w ingredients dietary_needs st)) = recipe"
    proof (cases "\<exists>kw. getitem_key recipe (py ''image_keywords'') = Inr (JString kw)")
      case True
      then show ?thesis
        using ne r n by (auto simp: generate_button_complete)
    next
      case False
      then show ?thesis
        using stopped by simp
    qed
  next
    fix kw
    assume k: "getitem_key recipe (py ''image_keywords'') = Inr (JString kw)"
    show "image_url (fst (generate_button w ingredients dietary_needs st))
        = fst (generate_recipe_image w kw)"
      using ne r n k by (simp add: generate_button_complete)
    show "json_loads (fst (get_nutritional_info w (json_dumps (float_repr w) recipe)))
        = Some (nutrition_data (fst (generate_button w ingredients dietary_needs st)))"
      using ne r n k by (simp add: generate_button_complete)
  next
    assume k: "\<forall>kw. getitem_key recipe (py ''image_keywords'') \<noteq> Inr (JString kw)"
    show "image_url (fst (generate_button w ingredients dietary_needs st)) = image_url st"
      using stopped [OF k] by simp
    show "nutrition_data (fst (generate_button w ingredients dietary_needs st)) = nutrition_data st"
      using stopped [OF k] by simp
  qed
qed

theorem generate_button_slots_witness:
  "py ''beans'' \<noteq> []
   \<and> recipe_data (fst (generate_button
         (chef_world (py ''{\"title\": \"Soup\", \"image_keywords\": \"soup\"}'') (py ''{\"calories\": 120}''))
         (py ''beans'') (py ''None'') empty_session))
       = JObject [(py ''title'', JString (py ''Soup'')), (py ''image_keywords'', JString (py ''soup''))]
   \<and> image_url (fst (generate_button
         (chef_world (py ''{\"title\": \"Soup\", \"image_keywords\": \"soup\"}'') (py ''{\"calories\": 120}''))
         (py ''beans'') (py ''None'') empty_session))
       = JString fallback_image
   \<and> nutrition_data (fst (generate_button
         (chef_world (py ''{\"title\": \"Soup\", \"image_keywords\": \"soup\"}'') (py ''{\"calories\": 120}''))
         (py ''beans'') (py ''None'') empty_session))
       = JObject [(py ''calories'', JInt 120)]
   \<and> recipe_data (fst (generate_button
         (chef_world (py ''{\"title\": \"Stew\"}'') (py ''{\"calories\": 450}''))
         (py ''beans'') (py ''None'') empty_session))
       = JObject [(py ''title'', JString (py ''Stew''))]
   \<and> image_url (fst (generate_button
         (chef_world (py ''{\"title\": \"Stew\"}'') (py ''{\"calories\": 450}''))
         (py ''beans'') (py ''None'') empty_session))
       = image_url empty_session
   \<and> nutrition_data (fst (generate_button
         (chef_world (py ''{\"title\": \"Stew\"}'') (py ''{\"calories\": 450}''))
         (py ''beans'') (py ''None'') empty_session))
       = nutrition_data empty_session"
proof -
  let ?w1 = "chef_world (py ''{\"title\": \"Soup\", \"image_keywords\": \"soup\"}'') (py ''{\"calories\": 120}'')"
  let ?w2 = "chef_world (py ''{\"title\": \"Stew\"}'') (py ''{\"calories\": 450}'')"
  have a: "recipe_data (fst (generate_button ?w1 (py ''beans'') (py ''None'') empty_session))
       = JObject [(py ''title'', JString (py ''Soup'')), (py ''image_keywords'', JString (py ''soup''))]
     \<and> image_url (fst (generate_button ?w1 (py ''beans'') (py ''None'') empty_session))
       = JString fallback_image
     \<and> nutrition_data (fst (generate_button ?w1 (py ''beans'') (py ''None'') empty_session))
       = JObject [(py ''calories'', JInt 120)]"
    using soup_run generate_button_slots [of ?w1 "py ''None''" empty_session "py ''beans''"]
    by (metis option.inject)
  have "\<forall>kw. getitem_key (JObject [(py ''title'', JString (py ''Stew''))]) (py ''image_keywords'')
      \<noteq> Inr (JString kw)"
    unfolding stew_run(2) by simp
  then have b: "recipe_data (fst (generate_button ?w2 (py ''beans'') (py ''None'') empty_session))
       = JObject [(py ''title'', JString (py ''Stew''))]
     \<and> image_url (fst (generate_button ?w2 (py ''beans'') (py ''None'') empty_session))
       = image_url empty_session
     \<and> nutrition_data (fst (generate_button ?w2 (py ''beans'') (py ''None'') empty_session))
       = nutrition_data empty_session"
    using soup_run(1) stew_run(1)
      generate_button_slots [of ?w2 "py ''None''" empty_session "py ''beans''"]
    by (metis option.inject)
  show ?thesis
    using soup_run(1) a b by blast
qed

end
